theory Spec2Isabelle
  imports Main "HOL-Library.Word"
begin

section \<open>The expression view consumed by the simplifier\<close>

text \<open>
  \<^verbatim>\<open>libyul/optimiser/SimplificationRules.{h,cpp}\<close> read the Yul AST through a handful of
  members only: \<^verbatim>\<open>Literal{location, kind, value, type}\<close>,
  \<^verbatim>\<open>Identifier{location, name}\<close>, \<^verbatim>\<open>FunctionCall{location, functionName, arguments}\<close>
  and \<^verbatim>\<open>FunctionalInstruction{instruction, arguments}\<close>. The node types are declared in
  \<^verbatim>\<open>libyul/AsmData.h\<close>; the datatypes below carry exactly the members the two files use
  or construct.
\<close>

type_synonym YulString = string

text \<open>\<^verbatim>\<open>dev::eth::Instruction\<close> is an \<^verbatim>\<open>enum class\<close> that the code casts to \<^verbatim>\<open>uint8_t\<close>.\<close>

type_synonym Instruction = "8 word"

type_synonym u256 = "256 word"

type_synonym uint64_t = "64 word"

text \<open>A source location is opaque to the simplifier: a start and an end offset.\<close>

type_synonym SourceLocation = "int \<times> int"

datatype LiteralKind = Number | Boolean | StringLiteral

datatype Identifier = Identifier (location: SourceLocation) (name: YulString)

datatype Expression =
    FunctionalInstruction SourceLocation Instruction "Expression list"
  | FunctionCall SourceLocation Identifier "Expression list"
  | IdentifierExpr Identifier
  | Literal SourceLocation LiteralKind YulString YulString

text \<open>
  \<^verbatim>\<open>assertThrow(cond, OptimizerException, msg)\<close> raises; \<^verbatim>\<open>vector::at\<close> raises
  \<^verbatim>\<open>std::out_of_range\<close>. Every raise is a value \<open>Inl\<close> of the result.
\<close>

datatype error = OptimizerException string | out_of_range

subsection \<open>Dialect and the external collaborators\<close>

text \<open>
  \<^verbatim>\<open>Dialect::builtin(name)\<close> returns a nullable pointer to the builtin's description; for an
  \<^verbatim>\<open>EVMDialect\<close> the description carries an optional \<^verbatim>\<open>instruction\<close>. The field
  \<open>isEVMDialect\<close> is the outcome of \<^verbatim>\<open>dynamic_cast<EVMDialect const*>(&_dialect)\<close>.
\<close>

record BuiltinFunction =
  instruction :: "Instruction option"

record Dialect =
  isEVMDialect :: bool
  builtin :: "YulString \<Rightarrow> BuiltinFunction option"

text \<open>
  Functions of other translation units that the two files call, taken as parameters:
  \<^item> \<open>movable\<close>: \<^verbatim>\<open>SideEffectsCollector(_dialect, _expr).movable()\<close>;
  \<^item> \<open>SyntacticallyEqual\<close>: \<^verbatim>\<open>SyntacticallyEqual{}(a, b)\<close>;
  \<^item> \<open>u256_of_string\<close>: the conversion \<^verbatim>\<open>u256(literal.value.str())\<close>;
  \<^item> \<open>formatNumber\<close> and \<open>instructionInfo_name\<close>: \<^verbatim>\<open>formatNumber(v)\<close> and
    \<^verbatim>\<open>instructionInfo(i).name\<close>.
\<close>

record Externals =
  movable :: "Dialect \<Rightarrow> Expression \<Rightarrow> bool"
  SyntacticallyEqual :: "Expression \<Rightarrow> Expression \<Rightarrow> bool"
  u256_of_string :: "string \<Rightarrow> u256"
  formatNumber :: "u256 \<Rightarrow> string"
  instructionInfo_name :: "Instruction \<Rightarrow> string"

text \<open>
  \<^verbatim>\<open>std::map<YulString, Expression const*>\<close>: a key may be present with a null pointer
  (\<open>Some None\<close>). \<^verbatim>\<open>std::map<unsigned, Expression const*>\<close> likewise.
\<close>

type_synonym SSAValues = "YulString \<Rightarrow> Expression option option"

type_synonym MatchGroups = "nat \<Rightarrow> Expression option option"

section \<open>Resolving the leading operator\<close>

fun instructionAndArguments :: "Dialect \<Rightarrow> Expression \<Rightarrow> (Instruction \<times> Expression list) option" where
  "instructionAndArguments dialect (FunctionalInstruction loc instr arguments) = Some (instr, arguments)"
| "instructionAndArguments dialect (FunctionCall loc functionName arguments) =
     (if isEVMDialect dialect then
        (case builtin dialect (name functionName) of
           Some b \<Rightarrow> (case instruction b of Some instr \<Rightarrow> Some (instr, arguments) | None \<Rightarrow> None)
         | None \<Rightarrow> None)
      else None)"
| "instructionAndArguments dialect (IdentifierExpr idn) = None"
| "instructionAndArguments dialect (Literal loc kind v ty) = None"

section \<open>Patterns\<close>

datatype PatternKind = Operation | Constant | Any

text \<open>The members of \<^verbatim>\<open>class Pattern\<close>; the table pointer \<^verbatim>\<open>m_matchGroups\<close> is the table
  passed to and returned by the functions below.\<close>

datatype Pattern = Pattern
  (m_kind: PatternKind)
  (m_instruction: Instruction)
  (m_data: "u256 option")
  (m_arguments: "Pattern list")
  (m_matchGroup: nat)

text \<open>The constructors of the class. \<^verbatim>\<open>m_instruction\<close> is left uninitialised by the first
  two; it is read only under kind \<open>Operation\<close>.\<close>

definition Pattern_of_kind :: "PatternKind \<Rightarrow> Pattern" where
  "Pattern_of_kind kind = Pattern kind 0 None [] 0"

definition Pattern_of_value :: "u256 \<Rightarrow> Pattern" where
  "Pattern_of_value v = Pattern Constant 0 (Some v) [] 0"

definition Pattern_of_instruction :: "Instruction \<Rightarrow> Pattern list \<Rightarrow> Pattern" where
  "Pattern_of_instruction instr arguments = Pattern Operation instr None arguments 0"

definition setMatchGroup :: "nat \<Rightarrow> Pattern \<Rightarrow> Pattern" where
  "setMatchGroup grp p = Pattern (m_kind p) (m_instruction p) (m_data p) (m_arguments p) grp"

subsection \<open>The blocks of \<^verbatim>\<open>matches\<close> shared by both pattern classes\<close>

text \<open>Lines 208-218 (and 343-353): see through a variable to its SSA value, except for \<open>Any\<close>.
  The result is never null, so the assertion of line 219 always holds.\<close>

definition resolveVariable :: "PatternKind \<Rightarrow> SSAValues \<Rightarrow> Expression \<Rightarrow> Expression" where
  "resolveVariable kind ssaValues expr0 =
     (if kind \<noteq> Any then
        (case expr0 of
           IdentifierExpr idn \<Rightarrow>
             (case ssaValues (name idn) of
                Some (Some new_expr) \<Rightarrow> new_expr
              | _ \<Rightarrow> expr0)
         | _ \<Rightarrow> expr0)
      else expr0)"

text \<open>An early \<^verbatim>\<open>return false\<close> or a raise ends the function; otherwise the rest runs on the
  table as it then stands.\<close>

definition andThen ::
  "error + bool \<times> MatchGroups \<Rightarrow> (MatchGroups \<Rightarrow> error + bool \<times> MatchGroups) \<Rightarrow> error + bool \<times> MatchGroups" where
  "andThen r k = (case r of Inl e \<Rightarrow> Inl e | Inr (ok, g) \<Rightarrow> if ok then k g else Inr (False, g))"

text \<open>Lines 247-278 (and 387-418). \<open>expr0\<close> is \<^verbatim>\<open>_expr\<close>, \<open>expr\<close> the resolved one.\<close>

definition checkMatchGroup ::
  "Externals \<Rightarrow> Dialect \<Rightarrow> PatternKind \<Rightarrow> nat \<Rightarrow> Expression \<Rightarrow> Expression \<Rightarrow> MatchGroups
   \<Rightarrow> error + bool \<times> MatchGroups" where
  "checkMatchGroup X dialect kind grp expr0 expr g =
     (if grp \<noteq> 0 then
        (case g grp of
           Some firstMatch \<Rightarrow>
             if kind \<noteq> Any then Inl (OptimizerException ''Match group repetition for non-any.'')
             else (case firstMatch of
                     None \<Rightarrow> Inl (OptimizerException ''Match set but to null.'')
                   | Some fm \<Rightarrow>
                       Inr (SyntacticallyEqual X fm expr0 \<and> movable X dialect expr0, g))
         | None \<Rightarrow>
             if kind = Any then Inr (True, g(grp \<mapsto> Some expr0))
             else if kind \<noteq> Constant then Inl (OptimizerException ''Match group set for operation.'')
             else Inr (True, g(grp \<mapsto> Some expr)))
      else Inr (True, g))"

subsection \<open>\<^verbatim>\<open>Pattern::matches\<close> (wide domain)\<close>

text \<open>Lines 221-231: the \<open>Constant\<close> branch.\<close>

definition matchConstant ::
  "Externals \<Rightarrow> u256 option \<Rightarrow> Pattern list \<Rightarrow> Expression \<Rightarrow> MatchGroups \<Rightarrow> error + bool \<times> MatchGroups" where
  "matchConstant X dat arguments expr g =
     (case expr of
        Literal loc kind v ty \<Rightarrow>
          if kind \<noteq> Number then Inr (False, g)
          else if (case dat of Some d \<Rightarrow> d \<noteq> u256_of_string X v | None \<Rightarrow> False) then Inr (False, g)
          else if arguments \<noteq> [] then Inl (OptimizerException [])
          else Inr (True, g)
      | _ \<Rightarrow> Inr (False, g))"

fun matches ::
  "Externals \<Rightarrow> Dialect \<Rightarrow> SSAValues \<Rightarrow> Pattern \<Rightarrow> Expression \<Rightarrow> MatchGroups \<Rightarrow> error + bool \<times> MatchGroups"
and matchesArguments ::
  "Externals \<Rightarrow> Dialect \<Rightarrow> SSAValues \<Rightarrow> Pattern list \<Rightarrow> Expression list \<Rightarrow> MatchGroups
   \<Rightarrow> error + bool \<times> MatchGroups" where
  \<open>matches X dialect ssaValues (Pattern kind instr dat arguments grp) expr0 g =
     (let expr = resolveVariable kind ssaValues expr0 in
      andThen
        (if kind = Constant then matchConstant X dat arguments expr g
         else if kind = Operation then
           (case instructionAndArguments dialect expr of
              None \<Rightarrow> Inr (False, g)
            | Some (instr', args) \<Rightarrow>
                if instr \<noteq> instr' then Inr (False, g)
                else if length arguments \<noteq> length args then Inl (OptimizerException [])
                else matchesArguments X dialect ssaValues arguments args g)
         else if arguments \<noteq> [] then Inl (OptimizerException ''"Any" should not have arguments.'')
         else Inr (True, g))
        (checkMatchGroup X dialect kind grp expr0 expr))\<close>
| "matchesArguments X dialect ssaValues [] args g = Inr (True, g)"
| "matchesArguments X dialect ssaValues (p # ps) [] g = Inl out_of_range"
| "matchesArguments X dialect ssaValues (p # ps) (a # args) g =
     andThen (matches X dialect ssaValues p a g) (matchesArguments X dialect ssaValues ps args)"

subsection \<open>\<^verbatim>\<open>PatternEWasm::matches\<close> (narrow domain)\<close>

datatype PatternEWasm = PatternEWasm
  (m_kind_EWasm: PatternKind)
  (m_instruction_EWasm: YulString)
  (m_data_EWasm: "uint64_t option")
  (m_arguments_EWasm: "PatternEWasm list")
  (m_matchGroup_EWasm: nat)

definition PatternEWasm_of_kind :: "PatternKind \<Rightarrow> PatternEWasm" where
  "PatternEWasm_of_kind kind = PatternEWasm kind [] None [] 0"

definition PatternEWasm_of_value :: "uint64_t \<Rightarrow> PatternEWasm" where
  "PatternEWasm_of_value v = PatternEWasm Constant [] (Some v) [] 0"

definition PatternEWasm_of_builtin :: "YulString \<Rightarrow> PatternEWasm list \<Rightarrow> PatternEWasm" where
  "PatternEWasm_of_builtin b arguments = PatternEWasm Operation b None arguments 0"

definition setMatchGroupEWasm :: "nat \<Rightarrow> PatternEWasm \<Rightarrow> PatternEWasm" where
  "setMatchGroupEWasm grp p =
     PatternEWasm (m_kind_EWasm p) (m_instruction_EWasm p) (m_data_EWasm p) (m_arguments_EWasm p) grp"

text \<open>Lines 356-367: the literal is converted to \<^verbatim>\<open>u256\<close> and then cast to \<^verbatim>\<open>uint64_t\<close>.\<close>

definition matchConstantEWasm ::
  "Externals \<Rightarrow> uint64_t option \<Rightarrow> PatternEWasm list \<Rightarrow> Expression \<Rightarrow> MatchGroups
   \<Rightarrow> error + bool \<times> MatchGroups" where
  "matchConstantEWasm X dat arguments expr g =
     (case expr of
        Literal loc kind v ty \<Rightarrow>
          if kind \<noteq> Number then Inr (False, g)
          else if (case dat of Some d \<Rightarrow> d \<noteq> (ucast (u256_of_string X v) :: uint64_t) | None \<Rightarrow> False)
            then Inr (False, g)
          else if arguments \<noteq> [] then Inl (OptimizerException [])
          else Inr (True, g)
      | _ \<Rightarrow> Inr (False, g))"

fun matchesEWasm ::
  "Externals \<Rightarrow> Dialect \<Rightarrow> SSAValues \<Rightarrow> PatternEWasm \<Rightarrow> Expression \<Rightarrow> MatchGroups
   \<Rightarrow> error + bool \<times> MatchGroups"
and matchesArgumentsEWasm ::
  "Externals \<Rightarrow> Dialect \<Rightarrow> SSAValues \<Rightarrow> PatternEWasm list \<Rightarrow> Expression list \<Rightarrow> MatchGroups
   \<Rightarrow> error + bool \<times> MatchGroups" where
  \<open>matchesEWasm X dialect ssaValues (PatternEWasm kind instr dat arguments grp) expr0 g =
     (let expr = resolveVariable kind ssaValues expr0 in
      andThen
        (if kind = Constant then matchConstantEWasm X dat arguments expr g
         else if kind = Operation then
           (case expr of
              FunctionCall loc functionName args \<Rightarrow>
                if builtin dialect (name functionName) = None then Inr (False, g)
                else if instr \<noteq> name functionName then Inr (False, g)
                else if length arguments \<noteq> length args then Inl (OptimizerException [])
                else matchesArgumentsEWasm X dialect ssaValues arguments args g
            | _ \<Rightarrow> Inr (False, g))
         else if arguments \<noteq> [] then Inl (OptimizerException ''"Any" should not have arguments.'')
         else Inr (True, g))
        (checkMatchGroup X dialect kind grp expr0 expr))\<close>
| "matchesArgumentsEWasm X dialect ssaValues [] args g = Inr (True, g)"
| "matchesArgumentsEWasm X dialect ssaValues (p # ps) [] g = Inl out_of_range"
| "matchesArgumentsEWasm X dialect ssaValues (p # ps) (a # args) g =
     andThen (matchesEWasm X dialect ssaValues p a g) (matchesArgumentsEWasm X dialect ssaValues ps args)"

section \<open>Expression reconstruction\<close>

text \<open>
  Modelled from the spec: \<^verbatim>\<open>ASTCopier().translate\<close> (\<^verbatim>\<open>libyul/optimiser/ASTCopier.h\<close> is not
  among the sources). The spec calls it the deep-copy collaborator, which produces "an
  independent copy of an expression subtree rooted at a given node": every node is rebuilt
  with the members of the node it copies.
\<close>

fun ASTCopier_translate :: "Expression \<Rightarrow> Expression" where
  "ASTCopier_translate (FunctionalInstruction loc instr arguments) =
     FunctionalInstruction loc instr (map ASTCopier_translate arguments)"
| "ASTCopier_translate (FunctionCall loc functionName arguments) =
     FunctionCall loc (Identifier (location functionName) (name functionName))
       (map ASTCopier_translate arguments)"
| "ASTCopier_translate (IdentifierExpr idn) = IdentifierExpr (Identifier (location idn) (name idn))"
| "ASTCopier_translate (Literal loc kind v ty) = Literal loc kind v ty"

text \<open>Lines 315-321 (and 451-457). \<^verbatim>\<open>m_matchGroups\<close> is non-null once a group was set.\<close>

definition matchGroupValue :: "nat \<Rightarrow> MatchGroups \<Rightarrow> error + Expression" where
  "matchGroupValue grp g =
     (if \<not> grp > 0 then Inl (OptimizerException [])
      else (case g grp of
              Some (Some e) \<Rightarrow> Inr e
            | _ \<Rightarrow> Inl (OptimizerException [])))"

text \<open>\<^verbatim>\<open>tolower\<close> in the "C" locale.\<close>

definition tolower :: "char \<Rightarrow> char" where
  "tolower c = (let n = (of_char c :: nat) in if 65 \<le> n \<and> n \<le> 90 then char_of (n + 32) else c)"

fun toExpression :: "Externals \<Rightarrow> SourceLocation \<Rightarrow> MatchGroups \<Rightarrow> Pattern \<Rightarrow> error + Expression"
and toExpressions :: "Externals \<Rightarrow> SourceLocation \<Rightarrow> MatchGroups \<Rightarrow> Pattern list \<Rightarrow> error + Expression list" where
  "toExpression X loc g (Pattern kind instr dat arguments grp) =
     (if grp \<noteq> 0 then
        (case matchGroupValue grp g of Inl e \<Rightarrow> Inl e | Inr v \<Rightarrow> Inr (ASTCopier_translate v))
      else if kind = Constant then
        (case dat of
           None \<Rightarrow> Inl (OptimizerException ''No match group and no constant value given.'')
         | Some d \<Rightarrow> Inr (Literal loc Number (formatNumber X d) []))
      else if kind = Operation then
        (case toExpressions X loc g arguments of
           Inl e \<Rightarrow> Inl e
         | Inr args \<Rightarrow>
             Inr (FunctionCall loc (Identifier loc (map tolower (instructionInfo_name X instr))) args))
      else Inl (OptimizerException ''Pattern of kind 'any', but no match group.''))"
| "toExpressions X loc g [] = Inr []"
| "toExpressions X loc g (p # ps) =
     (case toExpression X loc g p of
        Inl e \<Rightarrow> Inl e
      | Inr a \<Rightarrow> (case toExpressions X loc g ps of Inl e \<Rightarrow> Inl e | Inr args \<Rightarrow> Inr (a # args)))"

fun toExpressionEWasm :: "Externals \<Rightarrow> SourceLocation \<Rightarrow> MatchGroups \<Rightarrow> PatternEWasm \<Rightarrow> error + Expression"
and toExpressionsEWasm ::
  "Externals \<Rightarrow> SourceLocation \<Rightarrow> MatchGroups \<Rightarrow> PatternEWasm list \<Rightarrow> error + Expression list" where
  "toExpressionEWasm X loc g (PatternEWasm kind instr dat arguments grp) =
     (if grp \<noteq> 0 then
        (case matchGroupValue grp g of Inl e \<Rightarrow> Inl e | Inr v \<Rightarrow> Inr (ASTCopier_translate v))
      else if kind = Constant then
        (case dat of
           None \<Rightarrow> Inl (OptimizerException ''No match group and no constant value given.'')
         | Some d \<Rightarrow> Inr (Literal loc Number (formatNumber X (ucast d)) []))
      else if kind = Operation then
        (case toExpressionsEWasm X loc g arguments of
           Inl e \<Rightarrow> Inl e
         | Inr args \<Rightarrow> Inr (FunctionCall loc (Identifier loc instr) args))
      else Inl (OptimizerException ''Pattern of kind 'any', but no match group.''))"
| "toExpressionsEWasm X loc g [] = Inr []"
| "toExpressionsEWasm X loc g (p # ps) =
     (case toExpressionEWasm X loc g p of
        Inl e \<Rightarrow> Inl e
      | Inr a \<Rightarrow> (case toExpressionsEWasm X loc g ps of Inl e \<Rightarrow> Inl e | Inr args \<Rightarrow> Inr (a # args)))"

section \<open>The rule engine\<close>

text \<open>
  \<^verbatim>\<open>dev::eth::SimplificationRule<Pattern>\<close> as the two files use it: the members
  \<^verbatim>\<open>pattern\<close> and \<^verbatim>\<open>feasible\<close> (an empty \<^verbatim>\<open>std::function\<close> is \<open>None\<close>) are read, and
  lines 168-182 construct it from a pattern, an action and \<^verbatim>\<open>removesNonConstants\<close>. The
  closures capture patterns whose table pointer is the engine's table, so they are functions
  of the table; they may raise (\<^verbatim>\<open>d()\<close> asserts that its group is bound).
\<close>

record 'p SimplificationRule =
  pattern :: 'p
  action :: "MatchGroups \<Rightarrow> error + 'p"
  removesNonConstants :: bool
  feasible :: "(MatchGroups \<Rightarrow> error + bool) option"

text \<open>\<^verbatim>\<open>m_rules\<close> is an array of 256 vectors; \<^verbatim>\<open>m_rulesEWasm\<close> is a \<^verbatim>\<open>std::map\<close> read with
  \<^verbatim>\<open>operator[]\<close>, so an absent key reads as the empty vector.\<close>

record SimplificationRules =
  m_matchGroups :: MatchGroups
  m_rules :: "Instruction \<Rightarrow> Pattern SimplificationRule list"
  m_rulesEWasm :: "YulString \<Rightarrow> PatternEWasm SimplificationRule list"

text \<open>Modelled from the spec: the opcode of the "well-known bucket" that must be non-empty
  (\<^verbatim>\<open>libevmasm/Instruction.h\<close> is not among the sources); \<^verbatim>\<open>ADD\<close> is opcode \<open>0x01\<close>.\<close>

definition Instruction_ADD :: Instruction where
  "Instruction_ADD = 0x01"

definition isInitialized :: "SimplificationRules \<Rightarrow> bool" where
  "isInitialized rules = (m_rules rules Instruction_ADD \<noteq> [])"

text \<open>
  The loop of lines 53-59 and of lines 77-83, which differ in the pattern class only.
  \<open>m\<close> is \<^verbatim>\<open>rule.pattern.matches(_expr, _dialect, _ssaValues)\<close> as a function of the pattern
  and of the table; \<^verbatim>\<open>resetMatchGroups\<close> clears the table before it runs. The result is the
  rule pointed to (or null) and the table as the loop leaves it.
\<close>

fun tryRules ::
  "('p \<Rightarrow> MatchGroups \<Rightarrow> error + bool \<times> MatchGroups) \<Rightarrow> 'p SimplificationRule list \<Rightarrow> MatchGroups
   \<Rightarrow> error + 'p SimplificationRule option \<times> MatchGroups" where
  "tryRules m [] g = Inr (None, g)"
| "tryRules m (rule # rest) g =
     (case m (pattern rule) Map.empty of
        Inl e \<Rightarrow> Inl e
      | Inr (matched, g') \<Rightarrow>
          if matched then
            (case feasible rule of
               None \<Rightarrow> Inr (Some rule, g')
             | Some f \<Rightarrow>
                 (case f g' of
                    Inl e \<Rightarrow> Inl e
                  | Inr ok \<Rightarrow> if ok then Inr (Some rule, g') else tryRules m rest g'))
          else tryRules m rest g')"

definition withMatchGroups ::
  "SimplificationRules \<Rightarrow> error + 'p SimplificationRule option \<times> MatchGroups
   \<Rightarrow> error + 'p SimplificationRule option \<times> SimplificationRules" where
  "withMatchGroups rules r =
     (case r of Inl e \<Rightarrow> Inl e | Inr (found, g) \<Rightarrow> Inr (found, rules\<lparr>m_matchGroups := g\<rparr>))"

definition findFirstMatch ::
  "Externals \<Rightarrow> SimplificationRules \<Rightarrow> Expression \<Rightarrow> Dialect \<Rightarrow> SSAValues
   \<Rightarrow> error + Pattern SimplificationRule option \<times> SimplificationRules" where
  "findFirstMatch X rules expr dialect ssaValues =
     (if \<not> isInitialized rules then Inl (OptimizerException ''Rule list not properly initialized.'')
      else
        (case instructionAndArguments dialect expr of
           None \<Rightarrow> Inr (None, rules)
         | Some (instr, args) \<Rightarrow>
             withMatchGroups rules
               (tryRules (\<lambda>p. matches X dialect ssaValues p expr) (m_rules rules instr)
                  (m_matchGroups rules))))"

definition findFirstMatchEWasm ::
  "Externals \<Rightarrow> SimplificationRules \<Rightarrow> Expression \<Rightarrow> Dialect \<Rightarrow> SSAValues
   \<Rightarrow> error + PatternEWasm SimplificationRule option \<times> SimplificationRules" where
  "findFirstMatchEWasm X rules expr dialect ssaValues =
     (if \<not> isInitialized rules then Inl (OptimizerException ''Rule list not properly initialized.'')
      else
        (case expr of
           FunctionCall loc functionName args \<Rightarrow>
             if builtin dialect (name functionName) \<noteq> None then
               withMatchGroups rules
                 (tryRules (\<lambda>p. matchesEWasm X dialect ssaValues p expr)
                    (m_rulesEWasm rules (name functionName)) (m_matchGroups rules))
             else Inr (None, rules)
         | _ \<Rightarrow> Inr (None, rules)))"

subsection \<open>Registering rules\<close>

definition Pattern_instruction :: "Pattern \<Rightarrow> error + Instruction" where
  "Pattern_instruction p =
     (if m_kind p \<noteq> Operation then Inl (OptimizerException []) else Inr (m_instruction p))"

definition PatternEWasm_builtin :: "PatternEWasm \<Rightarrow> error + YulString" where
  "PatternEWasm_builtin p =
     (if m_kind_EWasm p \<noteq> Operation then Inl (OptimizerException []) else Inr (m_instruction_EWasm p))"

definition addRule :: "SimplificationRules \<Rightarrow> Pattern SimplificationRule \<Rightarrow> error + SimplificationRules" where
  "addRule rules rule =
     (case Pattern_instruction (pattern rule) of
        Inl e \<Rightarrow> Inl e
      | Inr instr \<Rightarrow> Inr (rules\<lparr>m_rules := (m_rules rules)(instr := m_rules rules instr @ [rule])\<rparr>))"

fun addRules :: "SimplificationRules \<Rightarrow> Pattern SimplificationRule list \<Rightarrow> error + SimplificationRules" where
  "addRules rules [] = Inr rules"
| "addRules rules (r # rs) =
     (case addRule rules r of Inl e \<Rightarrow> Inl e | Inr rules' \<Rightarrow> addRules rules' rs)"

definition addRuleEWasm ::
  "SimplificationRules \<Rightarrow> PatternEWasm SimplificationRule \<Rightarrow> error + SimplificationRules" where
  "addRuleEWasm rules rule =
     (case PatternEWasm_builtin (pattern rule) of
        Inl e \<Rightarrow> Inl e
      | Inr b \<Rightarrow>
          if b \<noteq> [] then
            Inr (rules\<lparr>m_rulesEWasm := (m_rulesEWasm rules)(b := m_rulesEWasm rules b @ [rule])\<rparr>)
          else Inr rules)"

text \<open>The loop of lines 183-184.\<close>

fun addRulesEWasm ::
  "SimplificationRules \<Rightarrow> PatternEWasm SimplificationRule list \<Rightarrow> error + SimplificationRules" where
  "addRulesEWasm rules [] = Inr rules"
| "addRulesEWasm rules (r # rs) =
     (case addRuleEWasm rules r of Inl e \<Rightarrow> Inl e | Inr rules' \<Rightarrow> addRulesEWasm rules' rs)"

text \<open>The members as default-initialised, before the constructor's body runs.\<close>

definition emptyRules :: SimplificationRules where
  "emptyRules = \<lparr>m_matchGroups = Map.empty, m_rules = (\<lambda>_. []), m_rulesEWasm = (\<lambda>_. [])\<rparr>"

subsection \<open>\<^verbatim>\<open>struct EWasmBuiltins\<close>\<close>

definition EWasmBuiltins_ADD :: string where "EWasmBuiltins_ADD = ''i64.add''"
definition EWasmBuiltins_SUB :: string where "EWasmBuiltins_SUB = ''i64.sub''"
definition EWasmBuiltins_MUL :: string where "EWasmBuiltins_MUL = ''i64.mul''"
definition EWasmBuiltins_DIV :: string where "EWasmBuiltins_DIV = ''i64.div_u''"
definition EWasmBuiltins_MOD :: string where "EWasmBuiltins_MOD = ''i64.rem_u''"
definition EWasmBuiltins_AND :: string where "EWasmBuiltins_AND = ''i64.and''"
definition EWasmBuiltins_OR :: string where "EWasmBuiltins_OR = ''i64.or''"
definition EWasmBuiltins_XOR :: string where "EWasmBuiltins_XOR = ''i64.xor''"
definition EWasmBuiltins_SHL :: string where "EWasmBuiltins_SHL = ''i64.shl''"
definition EWasmBuiltins_SHR :: string where "EWasmBuiltins_SHR = ''i64.shr_u''"
definition EWasmBuiltins_ISZERO :: string where "EWasmBuiltins_ISZERO = ''i64.eqz''"
definition EWasmBuiltins_EQ :: string where "EWasmBuiltins_EQ = ''i64.eq''"
definition EWasmBuiltins_LT :: string where "EWasmBuiltins_LT = ''i64.lt_u''"
definition EWasmBuiltins_GT :: string where "EWasmBuiltins_GT = ''i64.gt_u''"
definition EWasmBuiltins_SDIV :: string where "EWasmBuiltins_SDIV = []"
definition EWasmBuiltins_SMOD :: string where "EWasmBuiltins_SMOD = []"
definition EWasmBuiltins_EXP :: string where "EWasmBuiltins_EXP = []"
definition EWasmBuiltins_NOT :: string where "EWasmBuiltins_NOT = []"
definition EWasmBuiltins_SLT :: string where "EWasmBuiltins_SLT = []"
definition EWasmBuiltins_SGT :: string where "EWasmBuiltins_SGT = []"
definition EWasmBuiltins_BYTE :: string where "EWasmBuiltins_BYTE = []"
definition EWasmBuiltins_ADDMOD :: string where "EWasmBuiltins_ADDMOD = []"
definition EWasmBuiltins_MULMOD :: string where "EWasmBuiltins_MULMOD = []"
definition EWasmBuiltins_SIGNEXTEND :: string where "EWasmBuiltins_SIGNEXTEND = []"
definition EWasmBuiltins_ADDRESS :: string where "EWasmBuiltins_ADDRESS = []"
definition EWasmBuiltins_CALLER :: string where "EWasmBuiltins_CALLER = []"
definition EWasmBuiltins_ORIGIN :: string where "EWasmBuiltins_ORIGIN = []"
definition EWasmBuiltins_COINBASE :: string where "EWasmBuiltins_COINBASE = []"

section \<open>Concrete inputs for the examples\<close>

text \<open>
  One instance of the collaborators, used where a statement is evaluated on a concrete
  input: equality of nodes for \<^verbatim>\<open>SyntacticallyEqual\<close>, every identifier and literal movable and
  every call not, and a number conversion that reads the literals the examples use (\<open>5\<close>,
  \<open>2^64 + 5\<close> in decimal, and \<open>0\<close>).
\<close>

definition sampleExternals :: Externals where
  "sampleExternals =
     \<lparr>movable = (\<lambda>d e. case e of IdentifierExpr i \<Rightarrow> True | Literal l k v t \<Rightarrow> True | _ \<Rightarrow> False),
      SyntacticallyEqual = (\<lambda>a b. a = b),
      u256_of_string =
        (\<lambda>s. if s = ''5'' then 5 else if s = ''18446744073709551621'' then 2 ^ 64 + 5 else 0),
      formatNumber = (\<lambda>v. ''0''),
      instructionInfo_name = (\<lambda>i. ''ADD'')\<rparr>"

text \<open>An EVM dialect whose only builtin is \<^verbatim>\<open>add\<close>, with opcode \<open>0x01\<close>.\<close>

definition sampleDialect :: Dialect where
  "sampleDialect =
     \<lparr>isEVMDialect = True,
      builtin = (\<lambda>n. if n = ''add'' then Some \<lparr>instruction = Some 1\<rparr> else None)\<rparr>"

text \<open>A dialect that is not an EVM dialect, with the builtin \<^verbatim>\<open>i64.ne\<close> of lines 168-171.\<close>

definition sampleWasmDialect :: Dialect where
  "sampleWasmDialect =
     \<lparr>isEVMDialect = False,
      builtin = (\<lambda>n. if n = ''i64.ne'' then Some \<lparr>instruction = None\<rparr> else None)\<rparr>"

definition noLocation :: SourceLocation where
  "noLocation = (0, 0)"

text \<open>
  A rule table for the examples. The bucket of \<^verbatim>\<open>ADD\<close> holds, in this order, \<^verbatim>\<open>ADD(A, B)\<close>,
  \<^verbatim>\<open>ADD(X, 5)\<close> with a feasibility predicate that refuses, \<^verbatim>\<open>ADD(X, 5)\<close> without a
  predicate, and \<^verbatim>\<open>ADD(X, Y)\<close>; the bucket of \<^verbatim>\<open>i64.ne\<close> holds the patterns of lines 168-171.
  Groups are numbered as in the constructor: \<open>A\<close> 1, \<open>B\<close> 2, \<open>X\<close> 5, \<open>Y\<close> 6.
\<close>

definition sampleRule :: "Pattern \<Rightarrow> (MatchGroups \<Rightarrow> error + bool) option \<Rightarrow> Pattern SimplificationRule" where
  "sampleRule p f =
     \<lparr>pattern = p, action = (\<lambda>g. Inr (setMatchGroup 5 (Pattern_of_kind Any))),
      removesNonConstants = False, feasible = f\<rparr>"

definition sampleRuleEWasm :: "PatternEWasm \<Rightarrow> PatternEWasm SimplificationRule" where
  "sampleRuleEWasm p =
     \<lparr>pattern = p, action = (\<lambda>g. Inr (setMatchGroupEWasm 5 (PatternEWasm_of_kind Any))),
      removesNonConstants = False, feasible = None\<rparr>"

definition sampleBucket :: "Pattern SimplificationRule list" where
  "sampleBucket =
     [sampleRule (Pattern_of_instruction 1
        [setMatchGroup 1 (Pattern_of_kind Constant), setMatchGroup 2 (Pattern_of_kind Constant)]) None,
      sampleRule (Pattern_of_instruction 1
        [setMatchGroup 5 (Pattern_of_kind Any), Pattern_of_value 5]) (Some (\<lambda>g. Inr False)),
      sampleRule (Pattern_of_instruction 1
        [setMatchGroup 5 (Pattern_of_kind Any), Pattern_of_value 5]) None,
      sampleRule (Pattern_of_instruction 1
        [setMatchGroup 5 (Pattern_of_kind Any), setMatchGroup 6 (Pattern_of_kind Any)]) None]"

definition sampleBucketEWasm :: "PatternEWasm SimplificationRule list" where
  "sampleBucketEWasm =
     [sampleRuleEWasm (PatternEWasm_of_builtin ''i64.ne''
        [setMatchGroupEWasm 5 (PatternEWasm_of_kind Any), setMatchGroupEWasm 5 (PatternEWasm_of_kind Any)]),
      sampleRuleEWasm (PatternEWasm_of_builtin ''i64.ne''
        [setMatchGroupEWasm 1 (PatternEWasm_of_kind Constant),
         setMatchGroupEWasm 2 (PatternEWasm_of_kind Constant)]),
      sampleRuleEWasm (PatternEWasm_of_builtin ''i64.ne''
        [setMatchGroupEWasm 5 (PatternEWasm_of_kind Any), PatternEWasm_of_value 0]),
      sampleRuleEWasm (PatternEWasm_of_builtin ''i64.ne''
        [PatternEWasm_of_value 0, setMatchGroupEWasm 5 (PatternEWasm_of_kind Any)])]"

definition sampleRules :: SimplificationRules where
  "sampleRules =
     \<lparr>m_matchGroups = Map.empty,
      m_rules = (\<lambda>i. if i = 1 then sampleBucket else []),
      m_rulesEWasm = (\<lambda>n. if n = ''i64.ne'' then sampleBucketEWasm else [])\<rparr>"

section \<open>Properties\<close>

lemma andThen_simps:
  "andThen (Inl e) k = Inl e"
  "andThen (Inr (True, g)) k = k g"
  "andThen (Inr (False, g)) k = Inr (False, g)"
  by (simp_all add: andThen_def)

subsection \<open>The matcher by members, and what it does to the table\<close>

lemma matches_unfold:
  \<open>matches X dialect ssaValues p e g =
     andThen
       (if m_kind p = Constant then
          matchConstant X (m_data p) (m_arguments p) (resolveVariable (m_kind p) ssaValues e) g
        else if m_kind p = Operation then
          (case instructionAndArguments dialect (resolveVariable (m_kind p) ssaValues e) of
             None \<Rightarrow> Inr (False, g)
           | Some (instr', args) \<Rightarrow>
               if m_instruction p \<noteq> instr' then Inr (False, g)
               else if length (m_arguments p) \<noteq> length args then Inl (OptimizerException [])
               else matchesArguments X dialect ssaValues (m_arguments p) args g)
        else if m_arguments p \<noteq> [] then Inl (OptimizerException ''"Any" should not have arguments.'')
        else Inr (True, g))
       (checkMatchGroup X dialect (m_kind p) (m_matchGroup p) e (resolveVariable (m_kind p) ssaValues e))\<close>
  by (cases p) (auto simp add: Let_def split: option.splits Expression.splits)

lemma matchesEWasm_unfold:
  \<open>matchesEWasm X dialect ssaValues p e g =
     andThen
       (if m_kind_EWasm p = Constant then
          matchConstantEWasm X (m_data_EWasm p) (m_arguments_EWasm p)
            (resolveVariable (m_kind_EWasm p) ssaValues e) g
        else if m_kind_EWasm p = Operation then
          (case resolveVariable (m_kind_EWasm p) ssaValues e of
             FunctionCall loc functionName args \<Rightarrow>
               if builtin dialect (name functionName) = None then Inr (False, g)
               else if m_instruction_EWasm p \<noteq> name functionName then Inr (False, g)
               else if length (m_arguments_EWasm p) \<noteq> length args then Inl (OptimizerException [])
               else matchesArgumentsEWasm X dialect ssaValues (m_arguments_EWasm p) args g
           | _ \<Rightarrow> Inr (False, g))
        else if m_arguments_EWasm p \<noteq> [] then Inl (OptimizerException ''"Any" should not have arguments.'')
        else Inr (True, g))
       (checkMatchGroup X dialect (m_kind_EWasm p) (m_matchGroup_EWasm p) e
          (resolveVariable (m_kind_EWasm p) ssaValues e))\<close>
  by (cases p) (auto simp add: Let_def split: option.splits Expression.splits)

lemma andThen_Inr:
  "andThen r k = Inr (b, g') \<Longrightarrow>
   (r = Inr (False, g') \<and> \<not> b) \<or> (\<exists>g1. r = Inr (True, g1) \<and> k g1 = Inr (b, g'))"
  by (auto simp add: andThen_def split: sum.splits prod.splits if_splits)

lemma checkMatchGroup_preserves:
  "checkMatchGroup X dialect kind grp e0 e1 g = Inr (b, g') \<Longrightarrow> g k = Some v \<Longrightarrow> g' k = Some v"
  by (auto simp add: checkMatchGroup_def split: if_splits option.splits)

lemma matchConstant_table:
  "matchConstant X dat arguments expr g = Inr (b, g') \<Longrightarrow> g' = g"
  by (auto simp add: matchConstant_def split: Expression.splits if_splits option.splits)

lemma matchConstantEWasm_table:
  "matchConstantEWasm X dat arguments expr g = Inr (b, g') \<Longrightarrow> g' = g"
  by (auto simp add: matchConstantEWasm_def split: Expression.splits if_splits option.splits)

lemma matches_preserves:
  "matches X dialect ssaValues p e g = Inr (b, g') \<Longrightarrow> g k = Some v \<Longrightarrow> g' k = Some v"
  "matchesArguments X dialect ssaValues ps es g = Inr (b, g') \<Longrightarrow> g k = Some v \<Longrightarrow> g' k = Some v"
proof (induction X dialect ssaValues p e g and X dialect ssaValues ps es g
    arbitrary: b g' and b g' rule: matches_matchesArguments.induct)
  case (1 X dialect ssaValues kind instr dat arguments grp expr0 g)
  let ?expr = "resolveVariable kind ssaValues expr0"
  let ?s = \<open>if kind = Constant then matchConstant X dat arguments ?expr g
         else if kind = Operation then
           (case instructionAndArguments dialect ?expr of
              None \<Rightarrow> Inr (False, g)
            | Some (instr', args) \<Rightarrow>
                if instr \<noteq> instr' then Inr (False, g)
                else if length arguments \<noteq> length args then Inl (OptimizerException [])
                else matchesArguments X dialect ssaValues arguments args g)
         else if arguments \<noteq> [] then Inl (OptimizerException ''"Any" should not have arguments.'')
         else Inr (True, g)\<close>
  have structural: "g1 k = Some v" if "?s = Inr (b1, g1)" for b1 g1
  proof (cases kind)
    case Operation
    with that "1.prems"(2) "1.IH" show ?thesis
      by (auto split: option.splits if_splits)
  next
    case Constant
    with that "1.prems"(2) show ?thesis
      by (auto dest: matchConstant_table)
  next
    case Any
    with that "1.prems"(2) show ?thesis
      by (auto split: if_splits)
  qed
  from "1.prems"(1) have "andThen ?s (checkMatchGroup X dialect kind grp expr0 ?expr) = Inr (b, g')"
    by (simp add: Let_def)
  from andThen_Inr [OF this] show ?case
    using structural checkMatchGroup_preserves by blast
next
  case (2 X dialect ssaValues args g)
  then show ?case by simp
next
  case (3 X dialect ssaValues p ps g)
  then show ?case by simp
next
  case (4 X dialect ssaValues p ps a args g)
  from andThen_Inr [OF "4.prems"(1) [simplified]] show ?case
    using "4.IH" "4.prems"(2) by blast
qed

lemma matchesEWasm_preserves:
  "matchesEWasm X dialect ssaValues p e g = Inr (b, g') \<Longrightarrow> g k = Some v \<Longrightarrow> g' k = Some v"
  "matchesArgumentsEWasm X dialect ssaValues ps es g = Inr (b, g') \<Longrightarrow> g k = Some v \<Longrightarrow> g' k = Some v"
proof (induction X dialect ssaValues p e g and X dialect ssaValues ps es g
    arbitrary: b g' and b g' rule: matchesEWasm_matchesArgumentsEWasm.induct)
  case (1 X dialect ssaValues kind instr dat arguments grp expr0 g)
  let ?expr = "resolveVariable kind ssaValues expr0"
  let ?s = \<open>if kind = Constant then matchConstantEWasm X dat arguments ?expr g
         else if kind = Operation then
           (case ?expr of
              FunctionCall loc functionName args \<Rightarrow>
                if builtin dialect (name functionName) = None then Inr (False, g)
                else if instr \<noteq> name functionName then Inr (False, g)
                else if length arguments \<noteq> length args then Inl (OptimizerException [])
                else matchesArgumentsEWasm X dialect ssaValues arguments args g
            | _ \<Rightarrow> Inr (False, g))
         else if arguments \<noteq> [] then Inl (OptimizerException ''"Any" should not have arguments.'')
         else Inr (True, g)\<close>
  have structural: "g1 k = Some v" if "?s = Inr (b1, g1)" for b1 g1
  proof (cases kind)
    case Operation
    with that "1.prems"(2) "1.IH" show ?thesis
      by (auto split: Expression.splits if_splits)
  next
    case Constant
    with that "1.prems"(2) show ?thesis
      by (auto dest: matchConstantEWasm_table)
  next
    case Any
    with that "1.prems"(2) show ?thesis
      by (auto split: if_splits)
  qed
  from "1.prems"(1) have "andThen ?s (checkMatchGroup X dialect kind grp expr0 ?expr) = Inr (b, g')"
    by (simp add: Let_def)
  from andThen_Inr [OF this] show ?case
    using structural checkMatchGroup_preserves by blast
next
  case (2 X dialect ssaValues args g)
  then show ?case by simp
next
  case (3 X dialect ssaValues p ps g)
  then show ?case by simp
next
  case (4 X dialect ssaValues p ps a args g)
  from andThen_Inr [OF "4.prems"(1) [simplified]] show ?case
    using "4.IH" "4.prems"(2) by blast
qed

subsection \<open>Wildcards without a group\<close>

text \<open>
  A pattern of kind \<open>Any\<close> has no arguments: the one constructor that sets arguments makes an
  \<open>Operation\<close>.
\<close>

lemma matches_Any_no_group:
  "m_kind p = Any \<Longrightarrow> m_matchGroup p = 0 \<Longrightarrow> m_arguments p = [] \<Longrightarrow>
   matches X dialect ssaValues p e g = Inr (True, g)"
  by (cases p) (simp add: resolveVariable_def checkMatchGroup_def andThen_simps)

lemma matchesEWasm_Any_no_group:
  "m_kind_EWasm p = Any \<Longrightarrow> m_matchGroup_EWasm p = 0 \<Longrightarrow> m_arguments_EWasm p = [] \<Longrightarrow>
   matchesEWasm X dialect ssaValues p e g = Inr (True, g)"
  by (cases p) (simp add: resolveVariable_def checkMatchGroup_def andThen_simps)

text \<open>
  Claim C8. A pattern of kind \<open>Any\<close> with no match-group id matches every expression, whatever
  the dialect and the SSA map, and returns the match-group table as it received it; this holds
  for \<^verbatim>\<open>Pattern\<close> and for \<^verbatim>\<open>PatternEWasm\<close>, and in particular for the pattern the default
  constructor makes.
\<close>

theorem any_without_group_matches_everything:
  "(m_kind p = Any \<and> m_matchGroup p = 0 \<and> m_arguments p = [] \<longrightarrow>
      matches X dialect ssaValues p e g = Inr (True, g)) \<and>
   (m_kind_EWasm q = Any \<and> m_matchGroup_EWasm q = 0 \<and> m_arguments_EWasm q = [] \<longrightarrow>
      matchesEWasm X dialect ssaValues q e g = Inr (True, g)) \<and>
   matches X dialect ssaValues (Pattern_of_kind Any) e g = Inr (True, g) \<and>
   matchesEWasm X dialect ssaValues (PatternEWasm_of_kind Any) e g = Inr (True, g)"
  using matches_Any_no_group [of p X dialect ssaValues e g]
    matchesEWasm_Any_no_group [of q X dialect ssaValues e g]
    matches_Any_no_group [of "Pattern_of_kind Any" X dialect ssaValues e g]
    matchesEWasm_Any_no_group [of "PatternEWasm_of_kind Any" X dialect ssaValues e g]
  by (simp add: Pattern_of_kind_def PatternEWasm_of_kind_def del: matches.simps matchesEWasm.simps)

theorem any_without_group_matches_everything_witness:
  "matches sampleExternals sampleDialect Map.empty (Pattern_of_kind Any)
     (FunctionCall noLocation (Identifier noLocation ''mload'') [Literal noLocation Number ''5'' []])
     Map.empty = Inr (True, Map.empty) \<and>
   matchesEWasm sampleExternals sampleWasmDialect Map.empty (PatternEWasm_of_kind Any)
     (FunctionCall noLocation (Identifier noLocation ''mload'') [Literal noLocation Number ''5'' []])
     Map.empty = Inr (True, Map.empty)"
  using any_without_group_matches_everything
    [of "Pattern_of_kind Any" sampleExternals sampleDialect Map.empty
      "FunctionCall noLocation (Identifier noLocation ''mload'') [Literal noLocation Number ''5'' []]"
      Map.empty "PatternEWasm_of_kind Any"]
    any_without_group_matches_everything
    [of "Pattern_of_kind Any" sampleExternals sampleWasmDialect Map.empty
      "FunctionCall noLocation (Identifier noLocation ''mload'') [Literal noLocation Number ''5'' []]"
      Map.empty "PatternEWasm_of_kind Any"]
  by (simp add: Pattern_of_kind_def PatternEWasm_of_kind_def del: matches.simps matchesEWasm.simps)

subsection \<open>Arity of an operation pattern\<close>

lemma matches_arity_mismatch:
  "m_kind p = Operation \<Longrightarrow>
   instructionAndArguments dialect (resolveVariable Operation ssaValues e) = Some (m_instruction p, args) \<Longrightarrow>
   length (m_arguments p) \<noteq> length args \<Longrightarrow>
   matches X dialect ssaValues p e g = Inl (OptimizerException [])"
  by (simp add: matches_unfold andThen_simps)

lemma matchesEWasm_arity_mismatch:
  "m_kind_EWasm q = Operation \<Longrightarrow>
   resolveVariable Operation ssaValues e = FunctionCall loc functionName args \<Longrightarrow>
   builtin dialect (name functionName) \<noteq> None \<Longrightarrow>
   m_instruction_EWasm q = name functionName \<Longrightarrow>
   length (m_arguments_EWasm q) \<noteq> length args \<Longrightarrow>
   matchesEWasm X dialect ssaValues q e g = Inl (OptimizerException [])"
  by (auto simp add: matchesEWasm_unfold andThen_simps)

text \<open>
  Claim C5. When an \<open>Operation\<close> pattern's operator equals the operator resolved from the
  (possibly SSA-substituted) expression and the pattern's child list and the resolved argument
  list differ in length, \<^verbatim>\<open>matches\<close> raises \<^verbatim>\<open>OptimizerException\<close>; it does not return
  false. For \<^verbatim>\<open>PatternEWasm\<close> the operator resolves when the expression is a call of a name
  the dialect knows as a builtin.
\<close>

theorem arity_mismatch_raises:
  "(m_kind p = Operation \<and>
    instructionAndArguments dialect (resolveVariable Operation ssaValues e) = Some (m_instruction p, args) \<and>
    length (m_arguments p) \<noteq> length args \<longrightarrow>
      matches X dialect ssaValues p e g = Inl (OptimizerException [])) \<and>
   (m_kind_EWasm q = Operation \<and>
    resolveVariable Operation ssaValues e = FunctionCall loc functionName args \<and>
    builtin dialect (name functionName) \<noteq> None \<and>
    m_instruction_EWasm q = name functionName \<and>
    length (m_arguments_EWasm q) \<noteq> length args \<longrightarrow>
      matchesEWasm X dialect ssaValues q e g = Inl (OptimizerException []))"
  using matches_arity_mismatch [of p dialect ssaValues e args X g]
    matchesEWasm_arity_mismatch [of q ssaValues e loc functionName args dialect X g]
  by blast

theorem arity_mismatch_raises_witness:
  "matches sampleExternals sampleDialect Map.empty
     (Pattern_of_instruction 1 [Pattern_of_kind Any])
     (FunctionCall noLocation (Identifier noLocation ''add'')
        [Literal noLocation Number ''5'' [], Literal noLocation Number ''5'' []])
     Map.empty = Inl (OptimizerException []) \<and>
   matchesEWasm sampleExternals sampleWasmDialect Map.empty
     (PatternEWasm_of_builtin ''i64.ne'' [PatternEWasm_of_kind Any])
     (FunctionCall noLocation (Identifier noLocation ''i64.ne'')
        [Literal noLocation Number ''5'' [], Literal noLocation Number ''5'' []])
     Map.empty = Inl (OptimizerException [])"
  using arity_mismatch_raises
    [where p = "Pattern_of_instruction 1 [Pattern_of_kind Any]" and dialect = sampleDialect
      and ssaValues = Map.empty and X = sampleExternals and g = Map.empty
      and e = "FunctionCall noLocation (Identifier noLocation ''add'')
        [Literal noLocation Number ''5'' [], Literal noLocation Number ''5'' []]"
      and args = "[Literal noLocation Number ''5'' [], Literal noLocation Number ''5'' []]"]
    arity_mismatch_raises
    [where q = "PatternEWasm_of_builtin ''i64.ne'' [PatternEWasm_of_kind Any]"
      and dialect = sampleWasmDialect and ssaValues = Map.empty and X = sampleExternals
      and g = Map.empty
      and e = "FunctionCall noLocation (Identifier noLocation ''i64.ne'')
        [Literal noLocation Number ''5'' [], Literal noLocation Number ''5'' []]"
      and loc = noLocation and functionName = "Identifier noLocation ''i64.ne''"
      and args = "[Literal noLocation Number ''5'' [], Literal noLocation Number ''5'' []]"]
  by (simp add: Pattern_of_instruction_def PatternEWasm_of_builtin_def resolveVariable_def
      sampleDialect_def sampleWasmDialect_def)

subsection \<open>Constant patterns\<close>

lemma matchConstant_not_numeric:
  "\<forall>loc v ty. expr \<noteq> Literal loc Number v ty \<Longrightarrow>
   matchConstant X dat arguments expr g = Inr (False, g)"
  by (cases expr) (auto simp add: matchConstant_def)

lemma matchConstantEWasm_not_numeric:
  "\<forall>loc v ty. expr \<noteq> Literal loc Number v ty \<Longrightarrow>
   matchConstantEWasm X dat arguments expr g = Inr (False, g)"
  by (cases expr) (auto simp add: matchConstantEWasm_def)

lemma matches_Constant_not_numeric:
  "m_kind p = Constant \<Longrightarrow> \<forall>loc v ty. resolveVariable Constant ssaValues e \<noteq> Literal loc Number v ty \<Longrightarrow>
   matches X dialect ssaValues p e g = Inr (False, g)"
  by (simp add: matches_unfold matchConstant_not_numeric andThen_simps)

lemma matchesEWasm_Constant_not_numeric:
  "m_kind_EWasm q = Constant \<Longrightarrow>
   \<forall>loc v ty. resolveVariable Constant ssaValues e \<noteq> Literal loc Number v ty \<Longrightarrow>
   matchesEWasm X dialect ssaValues q e g = Inr (False, g)"
  by (simp add: matchesEWasm_unfold matchConstantEWasm_not_numeric andThen_simps)

lemma matches_Constant_other_value:
  "m_kind p = Constant \<Longrightarrow> resolveVariable Constant ssaValues e = Literal loc Number v ty \<Longrightarrow>
   m_data p = Some c \<Longrightarrow> u256_of_string X v \<noteq> c \<Longrightarrow>
   matches X dialect ssaValues p e g = Inr (False, g)"
  by (auto simp add: matches_unfold matchConstant_def andThen_simps)

lemma matchesEWasm_Constant_other_value:
  "m_kind_EWasm q = Constant \<Longrightarrow> resolveVariable Constant ssaValues e = Literal loc Number v ty \<Longrightarrow>
   m_data_EWasm q = Some cn \<Longrightarrow> ucast (u256_of_string X v) \<noteq> cn \<Longrightarrow>
   matchesEWasm X dialect ssaValues q e g = Inr (False, g)"
  by (auto simp add: matchesEWasm_unfold matchConstantEWasm_def andThen_simps)

lemma matches_Pattern_of_value:
  "resolveVariable Constant ssaValues e = Literal loc Number v ty \<Longrightarrow>
   matches X dialect ssaValues (Pattern_of_value c) e g = Inr (u256_of_string X v = c, g)"
  by (auto simp add: Pattern_of_value_def matchConstant_def checkMatchGroup_def andThen_simps)

lemma matchesEWasm_PatternEWasm_of_value:
  "resolveVariable Constant ssaValues e = Literal loc Number v ty \<Longrightarrow>
   matchesEWasm X dialect ssaValues (PatternEWasm_of_value cn) e g =
     Inr ((ucast (u256_of_string X v) :: uint64_t) = cn, g)"
  by (auto simp add: PatternEWasm_of_value_def matchConstantEWasm_def checkMatchGroup_def andThen_simps)

lemma resolveVariable_Literal:
  "resolveVariable kind ssaValues (Literal loc k v ty) = Literal loc k v ty"
  by (simp add: resolveVariable_def)

lemma narrow_reduction: "(ucast (2 ^ 64 + 5 :: u256) :: uint64_t) = 5"
  by simp

lemma wide_no_reduction: "(2 ^ 64 + 5 :: u256) \<noteq> 5"
  by simp

text \<open>
  Claim C3. A \<open>Constant\<close> pattern returns false unless the expression, after the SSA
  substitution, is a literal of kind \<open>Number\<close>. With a fixed value it returns false unless the
  literal's value equals it: \<^verbatim>\<open>Pattern\<close> compares the full 256-bit value,
  \<^verbatim>\<open>PatternEWasm\<close> compares the value cast to 64 bits. A pattern built from a fixed value alone
  matches exactly the literals of that value, so a literal of value \<open>2^64 + 5\<close> matches the
  narrow constant \<open>5\<close> and does not match the wide constant \<open>5\<close>.
\<close>

theorem constant_pattern_compares_in_word_domain:
  "(m_kind p = Constant \<and> (\<forall>loc v ty. resolveVariable Constant ssaValues e \<noteq> Literal loc Number v ty) \<longrightarrow>
      matches X dialect ssaValues p e g = Inr (False, g)) \<and>
   (m_kind p = Constant \<and> resolveVariable Constant ssaValues e = Literal loc Number v ty \<and>
    m_data p = Some c \<and> u256_of_string X v \<noteq> c \<longrightarrow>
      matches X dialect ssaValues p e g = Inr (False, g)) \<and>
   (m_kind_EWasm q = Constant \<and>
    (\<forall>loc v ty. resolveVariable Constant ssaValues e \<noteq> Literal loc Number v ty) \<longrightarrow>
      matchesEWasm X dialect ssaValues q e g = Inr (False, g)) \<and>
   (m_kind_EWasm q = Constant \<and> resolveVariable Constant ssaValues e = Literal loc Number v ty \<and>
    m_data_EWasm q = Some cn \<and> ucast (u256_of_string X v) \<noteq> cn \<longrightarrow>
      matchesEWasm X dialect ssaValues q e g = Inr (False, g)) \<and>
   (resolveVariable Constant ssaValues e = Literal loc Number v ty \<longrightarrow>
      matches X dialect ssaValues (Pattern_of_value c) e g = Inr (u256_of_string X v = c, g) \<and>
      matchesEWasm X dialect ssaValues (PatternEWasm_of_value cn) e g =
        Inr ((ucast (u256_of_string X v) :: uint64_t) = cn, g)) \<and>
   (u256_of_string X v = 2 ^ 64 + 5 \<longrightarrow>
      matchesEWasm X dialect ssaValues (PatternEWasm_of_value 5) (Literal loc Number v ty) g
        = Inr (True, g) \<and>
      matches X dialect ssaValues (Pattern_of_value 5) (Literal loc Number v ty) g
        = Inr (False, g))"
proof -
  have last: "matchesEWasm X dialect ssaValues (PatternEWasm_of_value 5) (Literal loc Number v ty) g
        = Inr (True, g) \<and>
      matches X dialect ssaValues (Pattern_of_value 5) (Literal loc Number v ty) g
        = Inr (False, g)" if "u256_of_string X v = 2 ^ 64 + 5"
    using that narrow_reduction wide_no_reduction
    by (simp add: matchesEWasm_PatternEWasm_of_value [OF resolveVariable_Literal]
        matches_Pattern_of_value [OF resolveVariable_Literal])
  show ?thesis
    using matches_Constant_not_numeric [of p ssaValues e X dialect g]
      matchesEWasm_Constant_not_numeric [of q ssaValues e X dialect g]
      matches_Constant_other_value [of p ssaValues e loc v ty c X dialect g]
      matchesEWasm_Constant_other_value [of q ssaValues e loc v ty cn X dialect g]
      matches_Pattern_of_value [of ssaValues e loc v ty X dialect c g]
      matchesEWasm_PatternEWasm_of_value [of ssaValues e loc v ty X dialect cn g]
      last
    by blast
qed

theorem constant_pattern_compares_in_word_domain_witness:
  "matches sampleExternals sampleDialect Map.empty (Pattern_of_kind Constant)
     (IdentifierExpr (Identifier noLocation ''y'')) Map.empty = Inr (False, Map.empty) \<and>
   matches sampleExternals sampleDialect Map.empty (Pattern_of_value 5)
     (Literal noLocation Number ''18446744073709551621'' []) Map.empty = Inr (False, Map.empty) \<and>
   matchesEWasm sampleExternals sampleWasmDialect Map.empty (PatternEWasm_of_value 5)
     (Literal noLocation Number ''18446744073709551621'' []) Map.empty = Inr (True, Map.empty) \<and>
   matchesEWasm sampleExternals sampleWasmDialect Map.empty (PatternEWasm_of_value 6)
     (Literal noLocation Number ''18446744073709551621'' []) Map.empty = Inr (False, Map.empty) \<and>
   matchesEWasm sampleExternals sampleWasmDialect Map.empty (PatternEWasm_of_kind Constant)
     (Literal noLocation StringLiteral ''5'' []) Map.empty = Inr (False, Map.empty)"
proof -
  have u: "u256_of_string sampleExternals ''18446744073709551621'' = 2 ^ 64 + 5"
    by (simp add: sampleExternals_def)
  have c6: "(ucast (2 ^ 64 + 5 :: u256) :: uint64_t) \<noteq> 6"
    by simp
  note T = constant_pattern_compares_in_word_domain
  show ?thesis
    using
      T [where p = "Pattern_of_kind Constant" and ssaValues = Map.empty
        and e = "IdentifierExpr (Identifier noLocation ''y'')" and X = sampleExternals
        and dialect = sampleDialect and g = Map.empty]
      T [where X = sampleExternals and v = "''18446744073709551621''" and dialect = sampleDialect
        and ssaValues = Map.empty and loc = noLocation and ty = "[]" and g = Map.empty]
      T [where X = sampleExternals and v = "''18446744073709551621''" and dialect = sampleWasmDialect
        and ssaValues = Map.empty and loc = noLocation and ty = "[]" and g = Map.empty]
      T [where q = "PatternEWasm_of_value 6" and ssaValues = Map.empty
        and e = "Literal noLocation Number ''18446744073709551621'' []" and X = sampleExternals
        and loc = noLocation and v = "''18446744073709551621''" and ty = "[]" and cn = 6
        and dialect = sampleWasmDialect and g = Map.empty]
      T [where q = "PatternEWasm_of_kind Constant" and ssaValues = Map.empty
        and e = "Literal noLocation StringLiteral ''5'' []" and X = sampleExternals
        and dialect = sampleWasmDialect and g = Map.empty]
      u c6
    by (simp add: Pattern_of_kind_def PatternEWasm_of_kind_def PatternEWasm_of_value_def
        resolveVariable_def)
qed

subsection \<open>SSA substitution and what a group binds\<close>

lemma resolveVariable_known:
  "kind \<noteq> Any \<Longrightarrow> ssaValues x = Some (Some v) \<Longrightarrow>
   resolveVariable kind ssaValues (IdentifierExpr (Identifier l x)) = v"
  by (simp add: resolveVariable_def)

lemma resolveVariable_not_Identifier:
  "\<forall>i. v \<noteq> IdentifierExpr i \<Longrightarrow> resolveVariable kind ssaValues v = v"
  by (cases v) (simp_all add: resolveVariable_def)

lemma resolveVariable_Any: "resolveVariable Any ssaValues e = e"
  by (simp add: resolveVariable_def)

lemma checkMatchGroup_not_Any:
  "kind \<noteq> Any \<Longrightarrow>
   checkMatchGroup X dialect kind grp e0 expr = checkMatchGroup X dialect kind grp e0' expr"
  by (rule ext) (simp add: checkMatchGroup_def split: option.splits)

lemma matches_sees_through_variable:
  assumes "m_kind p \<noteq> Any" and "ssaValues x = Some (Some v)"
  shows "matches X dialect ssaValues p (IdentifierExpr (Identifier l x)) g =
     (case v of IdentifierExpr i \<Rightarrow> Inr (False, g) | _ \<Rightarrow> matches X dialect ssaValues p v g)"
proof (cases "\<exists>i. v = IdentifierExpr i")
  case True
  then obtain i where v: "v = IdentifierExpr i" by blast
  have "m_kind p = Constant \<or> m_kind p = Operation"
    using assms(1) by (cases "m_kind p") simp_all
  then show ?thesis
    using assms v
    by (auto simp add: matches_unfold resolveVariable_known matchConstant_def andThen_simps)
next
  case False
  then have nv: "\<forall>i. v \<noteq> IdentifierExpr i" by blast
  have "matches X dialect ssaValues p (IdentifierExpr (Identifier l x)) g =
      matches X dialect ssaValues p v g"
    using assms
    by (simp add: matches_unfold resolveVariable_known resolveVariable_not_Identifier [OF nv]
        checkMatchGroup_not_Any [of "m_kind p" X dialect "m_matchGroup p" "IdentifierExpr (Identifier l x)" v v])
  with nv show ?thesis by (cases v) simp_all
qed

lemma matches_Any_ignores_ssa:
  "m_kind p = Any \<Longrightarrow> matches X dialect ssaValues p e g = matches X dialect ssaValues' p e g"
  by (simp add: matches_unfold resolveVariable_Any)

lemma matches_Any_binds_original:
  "m_kind p = Any \<Longrightarrow> m_arguments p = [] \<Longrightarrow> m_matchGroup p \<noteq> 0 \<Longrightarrow> g (m_matchGroup p) = None \<Longrightarrow>
   matches X dialect ssaValues p e g = Inr (True, g(m_matchGroup p \<mapsto> Some e))"
  by (simp add: matches_unfold resolveVariable_Any andThen_simps checkMatchGroup_def)

lemma matches_Constant_binds_resolved:
  assumes "m_kind p = Constant" and "m_matchGroup p \<noteq> 0" and "g (m_matchGroup p) = None"
    and "matches X dialect ssaValues p e g = Inr (True, g')"
  shows "g' = g(m_matchGroup p \<mapsto> Some (resolveVariable Constant ssaValues e))"
proof -
  let ?expr = "resolveVariable Constant ssaValues e"
  from assms(1,4) have "andThen (matchConstant X (m_data p) (m_arguments p) ?expr g)
      (checkMatchGroup X dialect Constant (m_matchGroup p) e ?expr) = Inr (True, g')"
    by (simp add: matches_unfold)
  from andThen_Inr [OF this] obtain g1 where
    g1: "matchConstant X (m_data p) (m_arguments p) ?expr g = Inr (True, g1)"
    and c: "checkMatchGroup X dialect Constant (m_matchGroup p) e ?expr g1 = Inr (True, g')"
    by blast
  from g1 have "g1 = g" by (rule matchConstant_table)
  with c assms(2,3) show ?thesis
    by (simp add: checkMatchGroup_def)
qed

lemma matches_Constant_through_variable:
  assumes "m_kind p = Constant" and "m_arguments p = []" and "m_matchGroup p \<noteq> 0"
    and "g (m_matchGroup p) = None" and "ssaValues x = Some (Some (Literal loc Number s ty))"
    and "m_data p = None \<or> m_data p = Some (u256_of_string X s)"
  shows "matches X dialect ssaValues p (IdentifierExpr (Identifier l x)) g =
     Inr (True, g(m_matchGroup p \<mapsto> Some (Literal loc Number s ty)))"
  using assms
  by (auto simp add: matches_unfold resolveVariable_known matchConstant_def andThen_simps
      checkMatchGroup_def)

lemma matchesEWasm_Any_binds_original:
  "m_kind_EWasm p = Any \<Longrightarrow> m_arguments_EWasm p = [] \<Longrightarrow> m_matchGroup_EWasm p \<noteq> 0 \<Longrightarrow>
   g (m_matchGroup_EWasm p) = None \<Longrightarrow>
   matchesEWasm X dialect ssaValues p e g = Inr (True, g(m_matchGroup_EWasm p \<mapsto> Some e))"
  by (simp add: matchesEWasm_unfold resolveVariable_Any andThen_simps checkMatchGroup_def)

lemma matchesEWasm_sees_through_variable:
  assumes "m_kind_EWasm q \<noteq> Any" and "ssaValues x = Some (Some v)"
  shows "matchesEWasm X dialect ssaValues q (IdentifierExpr (Identifier l x)) g =
     (case v of IdentifierExpr i \<Rightarrow> Inr (False, g) | _ \<Rightarrow> matchesEWasm X dialect ssaValues q v g)"
proof (cases "\<exists>i. v = IdentifierExpr i")
  case True
  then obtain i where v: "v = IdentifierExpr i" by blast
  have "m_kind_EWasm q = Constant \<or> m_kind_EWasm q = Operation"
    using assms(1) by (cases "m_kind_EWasm q") simp_all
  then show ?thesis
    using assms v
    by (auto simp add: matchesEWasm_unfold resolveVariable_known matchConstantEWasm_def andThen_simps)
next
  case False
  then have nv: "\<forall>i. v \<noteq> IdentifierExpr i" by blast
  have "matchesEWasm X dialect ssaValues q (IdentifierExpr (Identifier l x)) g =
      matchesEWasm X dialect ssaValues q v g"
    using assms
    by (simp add: matchesEWasm_unfold resolveVariable_known resolveVariable_not_Identifier [OF nv]
        checkMatchGroup_not_Any [of "m_kind_EWasm q" X dialect "m_matchGroup_EWasm q"
          "IdentifierExpr (Identifier l x)" v v])
  with nv show ?thesis by (cases v) simp_all
qed

lemma matchesEWasm_Any_ignores_ssa:
  "m_kind_EWasm q = Any \<Longrightarrow>
   matchesEWasm X dialect ssaValues q e g = matchesEWasm X dialect ssaValues' q e g"
  by (simp add: matchesEWasm_unfold resolveVariable_Any)

lemma matchesEWasm_Constant_binds_resolved:
  assumes "m_kind_EWasm q = Constant" and "m_matchGroup_EWasm q \<noteq> 0"
    and "g (m_matchGroup_EWasm q) = None"
    and "matchesEWasm X dialect ssaValues q e g = Inr (True, g')"
  shows "g' = g(m_matchGroup_EWasm q \<mapsto> Some (resolveVariable Constant ssaValues e))"
proof -
  let ?expr = "resolveVariable Constant ssaValues e"
  from assms(1,4) have "andThen (matchConstantEWasm X (m_data_EWasm q) (m_arguments_EWasm q) ?expr g)
      (checkMatchGroup X dialect Constant (m_matchGroup_EWasm q) e ?expr) = Inr (True, g')"
    by (simp add: matchesEWasm_unfold)
  from andThen_Inr [OF this] obtain g1 where
    g1: "matchConstantEWasm X (m_data_EWasm q) (m_arguments_EWasm q) ?expr g = Inr (True, g1)"
    and c: "checkMatchGroup X dialect Constant (m_matchGroup_EWasm q) e ?expr g1 = Inr (True, g')"
    by blast
  from g1 have "g1 = g" by (rule matchConstantEWasm_table)
  with c assms(2,3) show ?thesis
    by (simp add: checkMatchGroup_def)
qed

lemma matchesEWasm_Constant_through_variable:
  assumes "m_kind_EWasm q = Constant" and "m_arguments_EWasm q = []" and "m_matchGroup_EWasm q \<noteq> 0"
    and "g (m_matchGroup_EWasm q) = None" and "ssaValues x = Some (Some (Literal loc Number s ty))"
    and "m_data_EWasm q = None \<or> m_data_EWasm q = Some (ucast (u256_of_string X s))"
  shows "matchesEWasm X dialect ssaValues q (IdentifierExpr (Identifier l x)) g =
     Inr (True, g(m_matchGroup_EWasm q \<mapsto> Some (Literal loc Number s ty)))"
  using assms
  by (auto simp add: matchesEWasm_unfold resolveVariable_known matchConstantEWasm_def andThen_simps
      checkMatchGroup_def)

text \<open>
  Claim C4. A pattern of kind \<open>Constant\<close> or \<open>Operation\<close> matched against a variable
  reference whose name the SSA map holds with a non-null value behaves as if matched against
  that value (which is not substituted a second time: a value that is itself a variable
  reference is no literal and no operation, so the result is false). A pattern of kind \<open>Any\<close>
  does not read the SSA map. When a group is not yet bound, an \<open>Any\<close> pattern binds the
  expression as given and a \<open>Constant\<close> pattern binds the substituted expression, a literal
  reached through a variable in particular. All of this holds for \<^verbatim>\<open>Pattern::matches\<close> and,
  statement by statement, for \<^verbatim>\<open>PatternEWasm::matches\<close>.
\<close>

theorem ssa_substitution_and_group_binding:
  "(m_kind p \<noteq> Any \<and> ssaValues x = Some (Some v) \<longrightarrow>
      matches X dialect ssaValues p (IdentifierExpr (Identifier l x)) g =
        (case v of IdentifierExpr i \<Rightarrow> Inr (False, g) | _ \<Rightarrow> matches X dialect ssaValues p v g)) \<and>
   (m_kind p = Any \<longrightarrow>
      matches X dialect ssaValues p e g = matches X dialect ssaValues' p e g) \<and>
   (m_kind p = Any \<and> m_arguments p = [] \<and> m_matchGroup p \<noteq> 0 \<and> g (m_matchGroup p) = None \<longrightarrow>
      matches X dialect ssaValues p e g = Inr (True, g(m_matchGroup p \<mapsto> Some e))) \<and>
   (m_kind p = Constant \<and> m_matchGroup p \<noteq> 0 \<and> g (m_matchGroup p) = None \<and>
    matches X dialect ssaValues p e g = Inr (True, g') \<longrightarrow>
      g' = g(m_matchGroup p \<mapsto> Some (resolveVariable Constant ssaValues e))) \<and>
   (m_kind p = Constant \<and> m_arguments p = [] \<and> m_matchGroup p \<noteq> 0 \<and> g (m_matchGroup p) = None \<and>
    ssaValues x = Some (Some (Literal loc Number s ty)) \<and>
    (m_data p = None \<or> m_data p = Some (u256_of_string X s)) \<longrightarrow>
      matches X dialect ssaValues p (IdentifierExpr (Identifier l x)) g =
        Inr (True, g(m_matchGroup p \<mapsto> Some (Literal loc Number s ty)))) \<and>
   (m_kind_EWasm q \<noteq> Any \<and> ssaValues x = Some (Some v) \<longrightarrow>
      matchesEWasm X dialect ssaValues q (IdentifierExpr (Identifier l x)) g =
        (case v of IdentifierExpr i \<Rightarrow> Inr (False, g)
         | _ \<Rightarrow> matchesEWasm X dialect ssaValues q v g)) \<and>
   (m_kind_EWasm q = Any \<longrightarrow>
      matchesEWasm X dialect ssaValues q e g = matchesEWasm X dialect ssaValues' q e g) \<and>
   (m_kind_EWasm q = Any \<and> m_arguments_EWasm q = [] \<and> m_matchGroup_EWasm q \<noteq> 0 \<and>
    g (m_matchGroup_EWasm q) = None \<longrightarrow>
      matchesEWasm X dialect ssaValues q e g = Inr (True, g(m_matchGroup_EWasm q \<mapsto> Some e))) \<and>
   (m_kind_EWasm q = Constant \<and> m_matchGroup_EWasm q \<noteq> 0 \<and> g (m_matchGroup_EWasm q) = None \<and>
    matchesEWasm X dialect ssaValues q e g = Inr (True, g') \<longrightarrow>
      g' = g(m_matchGroup_EWasm q \<mapsto> Some (resolveVariable Constant ssaValues e))) \<and>
   (m_kind_EWasm q = Constant \<and> m_arguments_EWasm q = [] \<and> m_matchGroup_EWasm q \<noteq> 0 \<and>
    g (m_matchGroup_EWasm q) = None \<and>
    ssaValues x = Some (Some (Literal loc Number s ty)) \<and>
    (m_data_EWasm q = None \<or> m_data_EWasm q = Some (ucast (u256_of_string X s))) \<longrightarrow>
      matchesEWasm X dialect ssaValues q (IdentifierExpr (Identifier l x)) g =
        Inr (True, g(m_matchGroup_EWasm q \<mapsto> Some (Literal loc Number s ty))))"
proof -
  have wide: "(m_kind p \<noteq> Any \<and> ssaValues x = Some (Some v) \<longrightarrow>
      matches X dialect ssaValues p (IdentifierExpr (Identifier l x)) g =
        (case v of IdentifierExpr i \<Rightarrow> Inr (False, g) | _ \<Rightarrow> matches X dialect ssaValues p v g)) \<and>
   (m_kind p = Any \<longrightarrow>
      matches X dialect ssaValues p e g = matches X dialect ssaValues' p e g) \<and>
   (m_kind p = Any \<and> m_arguments p = [] \<and> m_matchGroup p \<noteq> 0 \<and> g (m_matchGroup p) = None \<longrightarrow>
      matches X dialect ssaValues p e g = Inr (True, g(m_matchGroup p \<mapsto> Some e))) \<and>
   (m_kind p = Constant \<and> m_matchGroup p \<noteq> 0 \<and> g (m_matchGroup p) = None \<and>
    matches X dialect ssaValues p e g = Inr (True, g') \<longrightarrow>
      g' = g(m_matchGroup p \<mapsto> Some (resolveVariable Constant ssaValues e))) \<and>
   (m_kind p = Constant \<and> m_arguments p = [] \<and> m_matchGroup p \<noteq> 0 \<and> g (m_matchGroup p) = None \<and>
    ssaValues x = Some (Some (Literal loc Number s ty)) \<and>
    (m_data p = None \<or> m_data p = Some (u256_of_string X s)) \<longrightarrow>
      matches X dialect ssaValues p (IdentifierExpr (Identifier l x)) g =
        Inr (True, g(m_matchGroup p \<mapsto> Some (Literal loc Number s ty))))"
    using matches_sees_through_variable [of p ssaValues x v X dialect l g]
      matches_Any_ignores_ssa [of p X dialect ssaValues e g ssaValues']
      matches_Any_binds_original [of p g X dialect ssaValues e]
      matches_Constant_binds_resolved [of p g X dialect ssaValues e g']
      matches_Constant_through_variable [of p g ssaValues x loc s ty X dialect l]
    by blast
  have narrow: "(m_kind_EWasm q \<noteq> Any \<and> ssaValues x = Some (Some v) \<longrightarrow>
      matchesEWasm X dialect ssaValues q (IdentifierExpr (Identifier l x)) g =
        (case v of IdentifierExpr i \<Rightarrow> Inr (False, g)
         | _ \<Rightarrow> matchesEWasm X dialect ssaValues q v g)) \<and>
   (m_kind_EWasm q = Any \<longrightarrow>
      matchesEWasm X dialect ssaValues q e g = matchesEWasm X dialect ssaValues' q e g) \<and>
   (m_kind_EWasm q = Any \<and> m_arguments_EWasm q = [] \<and> m_matchGroup_EWasm q \<noteq> 0 \<and>
    g (m_matchGroup_EWasm q) = None \<longrightarrow>
      matchesEWasm X dialect ssaValues q e g = Inr (True, g(m_matchGroup_EWasm q \<mapsto> Some e))) \<and>
   (m_kind_EWasm q = Constant \<and> m_matchGroup_EWasm q \<noteq> 0 \<and> g (m_matchGroup_EWasm q) = None \<and>
    matchesEWasm X dialect ssaValues q e g = Inr (True, g') \<longrightarrow>
      g' = g(m_matchGroup_EWasm q \<mapsto> Some (resolveVariable Constant ssaValues e))) \<and>
   (m_kind_EWasm q = Constant \<and> m_arguments_EWasm q = [] \<and> m_matchGroup_EWasm q \<noteq> 0 \<and>
    g (m_matchGroup_EWasm q) = None \<and>
    ssaValues x = Some (Some (Literal loc Number s ty)) \<and>
    (m_data_EWasm q = None \<or> m_data_EWasm q = Some (ucast (u256_of_string X s))) \<longrightarrow>
      matchesEWasm X dialect ssaValues q (IdentifierExpr (Identifier l x)) g =
        Inr (True, g(m_matchGroup_EWasm q \<mapsto> Some (Literal loc Number s ty))))"
    using matchesEWasm_sees_through_variable [of q ssaValues x v X dialect l g]
      matchesEWasm_Any_ignores_ssa [of q X dialect ssaValues e g ssaValues']
      matchesEWasm_Any_binds_original [of q g X dialect ssaValues e]
      matchesEWasm_Constant_binds_resolved [of q g X dialect ssaValues e g']
      matchesEWasm_Constant_through_variable [of q g ssaValues x loc s ty X dialect l]
    by blast
  from wide narrow show ?thesis
    by (elim conjE) (intro conjI; assumption)
qed

theorem ssa_substitution_and_group_binding_witness:
  "matches sampleExternals sampleDialect (Map.empty(''x'' \<mapsto> Some (Literal noLocation Number ''5'' [])))
     (setMatchGroup 1 (Pattern_of_kind Constant)) (IdentifierExpr (Identifier noLocation ''x''))
     Map.empty = Inr (True, Map.empty(1 \<mapsto> Some (Literal noLocation Number ''5'' []))) \<and>
   matches sampleExternals sampleDialect (Map.empty(''x'' \<mapsto> Some (Literal noLocation Number ''5'' [])))
     (setMatchGroup 5 (Pattern_of_kind Any)) (IdentifierExpr (Identifier noLocation ''x''))
     Map.empty = Inr (True, Map.empty(5 \<mapsto> Some (IdentifierExpr (Identifier noLocation ''x'')))) \<and>
   matches sampleExternals sampleDialect (Map.empty(''x'' \<mapsto> Some (Literal noLocation Number ''5'' [])))
     (Pattern_of_value 5) (IdentifierExpr (Identifier noLocation ''x'')) Map.empty =
   matches sampleExternals sampleDialect (Map.empty(''x'' \<mapsto> Some (Literal noLocation Number ''5'' [])))
     (Pattern_of_value 5) (Literal noLocation Number ''5'' []) Map.empty \<and>
   matchesEWasm sampleExternals sampleWasmDialect
     (Map.empty(''x'' \<mapsto> Some (Literal noLocation Number ''5'' [])))
     (setMatchGroupEWasm 1 (PatternEWasm_of_kind Constant)) (IdentifierExpr (Identifier noLocation ''x''))
     Map.empty = Inr (True, Map.empty(1 \<mapsto> Some (Literal noLocation Number ''5'' []))) \<and>
   matchesEWasm sampleExternals sampleWasmDialect
     (Map.empty(''x'' \<mapsto> Some (Literal noLocation Number ''5'' [])))
     (setMatchGroupEWasm 5 (PatternEWasm_of_kind Any)) (IdentifierExpr (Identifier noLocation ''x''))
     Map.empty = Inr (True, Map.empty(5 \<mapsto> Some (IdentifierExpr (Identifier noLocation ''x'')))) \<and>
   matchesEWasm sampleExternals sampleWasmDialect
     (Map.empty(''x'' \<mapsto> Some (Literal noLocation Number ''5'' [])))
     (PatternEWasm_of_value 5) (IdentifierExpr (Identifier noLocation ''x'')) Map.empty =
   matchesEWasm sampleExternals sampleWasmDialect
     (Map.empty(''x'' \<mapsto> Some (Literal noLocation Number ''5'' [])))
     (PatternEWasm_of_value 5) (Literal noLocation Number ''5'' []) Map.empty"
proof -
  note T = ssa_substitution_and_group_binding
  let ?five = "Literal noLocation Number ''5'' []"
  let ?x = "IdentifierExpr (Identifier noLocation ''x'')"
  let ?ssa = "Map.empty(''x'' \<mapsto> Some ?five) :: SSAValues"
  have ssa: "?ssa ''x'' = Some (Some ?five)"
    by simp
  have selA: "m_kind (setMatchGroup 1 (Pattern_of_kind Constant)) = Constant"
    "m_arguments (setMatchGroup 1 (Pattern_of_kind Constant)) = []"
    "m_matchGroup (setMatchGroup 1 (Pattern_of_kind Constant)) = 1"
    "m_data (setMatchGroup 1 (Pattern_of_kind Constant)) = None"
    "m_kind (setMatchGroup 5 (Pattern_of_kind Any)) = Any"
    "m_arguments (setMatchGroup 5 (Pattern_of_kind Any)) = []"
    "m_matchGroup (setMatchGroup 5 (Pattern_of_kind Any)) = 5"
    "m_kind (Pattern_of_value 5) = Constant"
    by (simp_all add: setMatchGroup_def Pattern_of_kind_def Pattern_of_value_def)
  have selB: "m_kind_EWasm (setMatchGroupEWasm 1 (PatternEWasm_of_kind Constant)) = Constant"
    "m_arguments_EWasm (setMatchGroupEWasm 1 (PatternEWasm_of_kind Constant)) = []"
    "m_matchGroup_EWasm (setMatchGroupEWasm 1 (PatternEWasm_of_kind Constant)) = 1"
    "m_data_EWasm (setMatchGroupEWasm 1 (PatternEWasm_of_kind Constant)) = None"
    "m_kind_EWasm (setMatchGroupEWasm 5 (PatternEWasm_of_kind Any)) = Any"
    "m_arguments_EWasm (setMatchGroupEWasm 5 (PatternEWasm_of_kind Any)) = []"
    "m_matchGroup_EWasm (setMatchGroupEWasm 5 (PatternEWasm_of_kind Any)) = 5"
    "m_kind_EWasm (PatternEWasm_of_value 5) = Constant"
    by (simp_all add: setMatchGroupEWasm_def PatternEWasm_of_kind_def PatternEWasm_of_value_def)
  have w1: "matches sampleExternals sampleDialect ?ssa (setMatchGroup 1 (Pattern_of_kind Constant)) ?x
      Map.empty = Inr (True, Map.empty(1 \<mapsto> Some ?five))"
    using T [where p = "setMatchGroup 1 (Pattern_of_kind Constant)" and g = Map.empty
        and ssaValues = ?ssa and x = "''x''" and loc = noLocation and s = "''5''" and ty = "[]"
        and X = sampleExternals and dialect = sampleDialect and l = noLocation,
        THEN conjunct2, THEN conjunct2, THEN conjunct2, THEN conjunct2, THEN conjunct1]
      ssa selA
    by (simp del: matches.simps)
  have w2: "matches sampleExternals sampleDialect ?ssa (setMatchGroup 5 (Pattern_of_kind Any)) ?x
      Map.empty = Inr (True, Map.empty(5 \<mapsto> Some ?x))"
    using T [where p = "setMatchGroup 5 (Pattern_of_kind Any)" and g = Map.empty
        and ssaValues = ?ssa and e = ?x and X = sampleExternals and dialect = sampleDialect,
        THEN conjunct2, THEN conjunct2, THEN conjunct1]
      selA
    by (simp del: matches.simps)
  have w3: "matches sampleExternals sampleDialect ?ssa (Pattern_of_value 5) ?x Map.empty =
      matches sampleExternals sampleDialect ?ssa (Pattern_of_value 5) ?five Map.empty"
    using T [where p = "Pattern_of_value 5" and g = Map.empty and ssaValues = ?ssa and x = "''x''"
        and v = ?five and X = sampleExternals and dialect = sampleDialect and l = noLocation,
        THEN conjunct1]
      ssa selA
    by (simp del: matches.simps)
  have n1: "matchesEWasm sampleExternals sampleWasmDialect ?ssa
      (setMatchGroupEWasm 1 (PatternEWasm_of_kind Constant)) ?x
      Map.empty = Inr (True, Map.empty(1 \<mapsto> Some ?five))"
    using T [where q = "setMatchGroupEWasm 1 (PatternEWasm_of_kind Constant)" and g = Map.empty
        and ssaValues = ?ssa and x = "''x''" and loc = noLocation and s = "''5''" and ty = "[]"
        and X = sampleExternals and dialect = sampleWasmDialect and l = noLocation,
        THEN conjunct2, THEN conjunct2, THEN conjunct2, THEN conjunct2, THEN conjunct2,
        THEN conjunct2, THEN conjunct2, THEN conjunct2, THEN conjunct2]
      ssa selB
    by (simp del: matchesEWasm.simps)
  have n2: "matchesEWasm sampleExternals sampleWasmDialect ?ssa
      (setMatchGroupEWasm 5 (PatternEWasm_of_kind Any)) ?x
      Map.empty = Inr (True, Map.empty(5 \<mapsto> Some ?x))"
    using T [where q = "setMatchGroupEWasm 5 (PatternEWasm_of_kind Any)" and g = Map.empty
        and ssaValues = ?ssa and e = ?x and X = sampleExternals and dialect = sampleWasmDialect,
        THEN conjunct2, THEN conjunct2, THEN conjunct2, THEN conjunct2, THEN conjunct2,
        THEN conjunct2, THEN conjunct2, THEN conjunct1]
      selB
    by (simp del: matchesEWasm.simps)
  have n3: "matchesEWasm sampleExternals sampleWasmDialect ?ssa (PatternEWasm_of_value 5) ?x Map.empty =
      matchesEWasm sampleExternals sampleWasmDialect ?ssa (PatternEWasm_of_value 5) ?five Map.empty"
    using T [where q = "PatternEWasm_of_value 5" and g = Map.empty and ssaValues = ?ssa and x = "''x''"
        and v = ?five and X = sampleExternals and dialect = sampleWasmDialect and l = noLocation,
        THEN conjunct2, THEN conjunct2, THEN conjunct2, THEN conjunct2, THEN conjunct2,
        THEN conjunct1]
      ssa selB
    by (simp del: matchesEWasm.simps)
  from w1 w2 w3 n1 n2 n3 show ?thesis
    by (intro conjI)
qed

subsection \<open>A bound group under a pattern that is not a wildcard\<close>

lemma checkMatchGroup_repetition:
  "kind \<noteq> Any \<Longrightarrow> grp \<noteq> 0 \<Longrightarrow> g grp = Some v \<Longrightarrow>
   checkMatchGroup X dialect kind grp e0 expr g =
     Inl (OptimizerException ''Match group repetition for non-any.'')"
  by (simp add: checkMatchGroup_def)

lemma matches_bound_non_Any_never_succeeds:
  assumes "m_kind p \<noteq> Any" and "m_matchGroup p \<noteq> 0" and "g (m_matchGroup p) = Some v"
  shows "matches X dialect ssaValues p e g \<noteq> Inr (True, g')"
proof
  assume m: "matches X dialect ssaValues p e g = Inr (True, g')"
  obtain kind instr dat arguments grp where p: "p = Pattern kind instr dat arguments grp"
    by (cases p)
  let ?expr = "resolveVariable kind ssaValues e"
  let ?s = \<open>if kind = Constant then matchConstant X dat arguments ?expr g
         else if kind = Operation then
           (case instructionAndArguments dialect ?expr of
              None \<Rightarrow> Inr (False, g)
            | Some (instr', args) \<Rightarrow>
                if instr \<noteq> instr' then Inr (False, g)
                else if length arguments \<noteq> length args then Inl (OptimizerException [])
                else matchesArguments X dialect ssaValues arguments args g)
         else if arguments \<noteq> [] then Inl (OptimizerException ''"Any" should not have arguments.'')
         else Inr (True, g)\<close>
  from m p have "andThen ?s (checkMatchGroup X dialect kind grp e ?expr) = Inr (True, g')"
    by (simp add: Let_def)
  from andThen_Inr [OF this] obtain g1 where s: "?s = Inr (True, g1)"
    and c: "checkMatchGroup X dialect kind grp e ?expr g1 = Inr (True, g')"
    by blast
  have "g1 grp = Some v"
  proof (cases kind)
    case Operation
    with s assms(3) p show ?thesis
      by (auto split: option.splits if_splits dest: matches_preserves(2))
  next
    case Constant
    with s assms(3) p show ?thesis
      by (auto dest: matchConstant_table)
  next
    case Any
    with assms(1) p show ?thesis by simp
  qed
  with assms(1,2) p have "checkMatchGroup X dialect kind grp e ?expr g1 =
      Inl (OptimizerException ''Match group repetition for non-any.'')"
    by (simp add: checkMatchGroup_repetition)
  with c show False by simp
qed

lemma matchesEWasm_bound_non_Any_never_succeeds:
  assumes "m_kind_EWasm p \<noteq> Any" and "m_matchGroup_EWasm p \<noteq> 0" and "g (m_matchGroup_EWasm p) = Some v"
  shows "matchesEWasm X dialect ssaValues p e g \<noteq> Inr (True, g')"
proof
  assume m: "matchesEWasm X dialect ssaValues p e g = Inr (True, g')"
  obtain kind instr dat arguments grp where p: "p = PatternEWasm kind instr dat arguments grp"
    by (cases p)
  let ?expr = "resolveVariable kind ssaValues e"
  let ?s = \<open>if kind = Constant then matchConstantEWasm X dat arguments ?expr g
         else if kind = Operation then
           (case ?expr of
              FunctionCall loc functionName args \<Rightarrow>
                if builtin dialect (name functionName) = None then Inr (False, g)
                else if instr \<noteq> name functionName then Inr (False, g)
                else if length arguments \<noteq> length args then Inl (OptimizerException [])
                else matchesArgumentsEWasm X dialect ssaValues arguments args g
            | _ \<Rightarrow> Inr (False, g))
         else if arguments \<noteq> [] then Inl (OptimizerException ''"Any" should not have arguments.'')
         else Inr (True, g)\<close>
  from m p have "andThen ?s (checkMatchGroup X dialect kind grp e ?expr) = Inr (True, g')"
    by (simp add: Let_def)
  from andThen_Inr [OF this] obtain g1 where s: "?s = Inr (True, g1)"
    and c: "checkMatchGroup X dialect kind grp e ?expr g1 = Inr (True, g')"
    by blast
  have "g1 grp = Some v"
  proof (cases kind)
    case Operation
    with s assms(3) p show ?thesis
      by (auto split: Expression.splits if_splits dest: matchesEWasm_preserves(2))
  next
    case Constant
    with s assms(3) p show ?thesis
      by (auto dest: matchConstantEWasm_table)
  next
    case Any
    with assms(1) p show ?thesis by simp
  qed
  with assms(1,2) p have "checkMatchGroup X dialect kind grp e ?expr g1 =
      Inl (OptimizerException ''Match group repetition for non-any.'')"
    by (simp add: checkMatchGroup_repetition)
  with c show False by simp
qed

lemma matches_Constant_repetition_raises:
  assumes "m_kind p = Constant" and "m_arguments p = []" and "m_matchGroup p \<noteq> 0"
    and "g (m_matchGroup p) = Some w"
    and "resolveVariable Constant ssaValues e = Literal loc Number s ty"
    and "m_data p = None \<or> m_data p = Some (u256_of_string X s)"
  shows "matches X dialect ssaValues p e g =
     Inl (OptimizerException ''Match group repetition for non-any.'')"
  using assms
  by (auto simp add: matches_unfold matchConstant_def andThen_simps checkMatchGroup_def)

lemma matches_Operation_repetition_raises:
  assumes "m_kind p = Operation" and "m_matchGroup p \<noteq> 0" and "g (m_matchGroup p) = Some w"
    and "instructionAndArguments dialect (resolveVariable Operation ssaValues e) = Some (m_instruction p, args)"
    and "length (m_arguments p) = length args"
    and "matchesArguments X dialect ssaValues (m_arguments p) args g = Inr (True, g1)"
  shows "matches X dialect ssaValues p e g =
     Inl (OptimizerException ''Match group repetition for non-any.'')"
proof -
  from assms(3,6) have "g1 (m_matchGroup p) = Some w"
    by (rule matches_preserves(2) [rotated])
  with assms show ?thesis
    by (simp add: matches_unfold andThen_simps checkMatchGroup_def)
qed

lemma matchesEWasm_Constant_repetition_raises:
  assumes "m_kind_EWasm p = Constant" and "m_arguments_EWasm p = []" and "m_matchGroup_EWasm p \<noteq> 0"
    and "g (m_matchGroup_EWasm p) = Some w"
    and "resolveVariable Constant ssaValues e = Literal loc Number s ty"
    and "m_data_EWasm p = None \<or> m_data_EWasm p = Some (ucast (u256_of_string X s))"
  shows "matchesEWasm X dialect ssaValues p e g =
     Inl (OptimizerException ''Match group repetition for non-any.'')"
  using assms
  by (auto simp add: matchesEWasm_unfold matchConstantEWasm_def andThen_simps checkMatchGroup_def)

lemma matchesEWasm_Operation_repetition_raises:
  assumes "m_kind_EWasm p = Operation" and "m_matchGroup_EWasm p \<noteq> 0"
    and "g (m_matchGroup_EWasm p) = Some w"
    and "resolveVariable Operation ssaValues e = FunctionCall loc functionName args"
    and "builtin dialect (name functionName) \<noteq> None"
    and "m_instruction_EWasm p = name functionName"
    and "length (m_arguments_EWasm p) = length args"
    and "matchesArgumentsEWasm X dialect ssaValues (m_arguments_EWasm p) args g = Inr (True, g1)"
  shows "matchesEWasm X dialect ssaValues p e g =
     Inl (OptimizerException ''Match group repetition for non-any.'')"
proof -
  from assms(3,8) have "g1 (m_matchGroup_EWasm p) = Some w"
    by (rule matchesEWasm_preserves(2) [rotated])
  with assms show ?thesis
    by (auto simp add: matchesEWasm_unfold andThen_simps checkMatchGroup_def)
qed

text \<open>
  Claim C6, as stated, fails: the group check of lines 260-262 is reached only after the
  pattern's own structural check. Pattern \<^verbatim>\<open>ADD(A, A)\<close> with the constant group \<open>A\<close> against
  \<^verbatim>\<open>add(5, y)\<close>: the first \<open>A\<close> binds group 1, the second \<open>A\<close> meets the bound group on an
  expression that is no literal, and line 224 returns false.
\<close>

theorem bound_group_on_constant_returns_false:
  "matches sampleExternals sampleDialect Map.empty
     (Pattern_of_instruction 1
        [setMatchGroup 1 (Pattern_of_kind Constant), setMatchGroup 1 (Pattern_of_kind Constant)])
     (FunctionCall noLocation (Identifier noLocation ''add'')
        [Literal noLocation Number ''5'' [], IdentifierExpr (Identifier noLocation ''y'')])
     Map.empty
   = Inr (False, Map.empty(1 \<mapsto> Some (Literal noLocation Number ''5'' [])))"
  by (simp add: Pattern_of_instruction_def setMatchGroup_def Pattern_of_kind_def sampleDialect_def
      resolveVariable_def matchConstant_def checkMatchGroup_def andThen_simps)

text \<open>
  Claim C6, amended. When the group of a pattern of kind \<open>Operation\<close> or \<open>Constant\<close> is
  already bound, \<^verbatim>\<open>matches\<close> never succeeds, and it raises
  \<^verbatim>\<open>OptimizerException("Match group repetition for non-any.")\<close> whenever the pattern's own
  structural check passes: for a \<open>Constant\<close>, the expression is a numeric literal of the
  required value; for an \<open>Operation\<close>, operator and arity agree and all children match. It
  returns an ordinary false only when that structural check fails first.
\<close>

theorem group_repetition_on_non_any:
  "(m_kind p \<noteq> Any \<and> m_matchGroup p \<noteq> 0 \<and> g (m_matchGroup p) = Some w \<longrightarrow>
      matches X dialect ssaValues p e g \<noteq> Inr (True, g')) \<and>
   (m_kind p = Constant \<and> m_arguments p = [] \<and> m_matchGroup p \<noteq> 0 \<and> g (m_matchGroup p) = Some w \<and>
    resolveVariable Constant ssaValues e = Literal loc Number s ty \<and>
    (m_data p = None \<or> m_data p = Some (u256_of_string X s)) \<longrightarrow>
      matches X dialect ssaValues p e g =
        Inl (OptimizerException ''Match group repetition for non-any.'')) \<and>
   (m_kind p = Operation \<and> m_matchGroup p \<noteq> 0 \<and> g (m_matchGroup p) = Some w \<and>
    instructionAndArguments dialect (resolveVariable Operation ssaValues e) = Some (m_instruction p, args) \<and>
    length (m_arguments p) = length args \<and>
    matchesArguments X dialect ssaValues (m_arguments p) args g = Inr (True, g1) \<longrightarrow>
      matches X dialect ssaValues p e g =
        Inl (OptimizerException ''Match group repetition for non-any.'')) \<and>
   (m_kind_EWasm q \<noteq> Any \<and> m_matchGroup_EWasm q \<noteq> 0 \<and> g (m_matchGroup_EWasm q) = Some w \<longrightarrow>
      matchesEWasm X dialect ssaValues q e g \<noteq> Inr (True, g')) \<and>
   (m_kind_EWasm q = Constant \<and> m_arguments_EWasm q = [] \<and> m_matchGroup_EWasm q \<noteq> 0 \<and>
    g (m_matchGroup_EWasm q) = Some w \<and>
    resolveVariable Constant ssaValues e = Literal loc Number s ty \<and>
    (m_data_EWasm q = None \<or> m_data_EWasm q = Some (ucast (u256_of_string X s))) \<longrightarrow>
      matchesEWasm X dialect ssaValues q e g =
        Inl (OptimizerException ''Match group repetition for non-any.'')) \<and>
   (m_kind_EWasm q = Operation \<and> m_matchGroup_EWasm q \<noteq> 0 \<and> g (m_matchGroup_EWasm q) = Some w \<and>
    resolveVariable Operation ssaValues e = FunctionCall loc functionName args \<and>
    builtin dialect (name functionName) \<noteq> None \<and>
    m_instruction_EWasm q = name functionName \<and>
    length (m_arguments_EWasm q) = length args \<and>
    matchesArgumentsEWasm X dialect ssaValues (m_arguments_EWasm q) args g = Inr (True, g1) \<longrightarrow>
      matchesEWasm X dialect ssaValues q e g =
        Inl (OptimizerException ''Match group repetition for non-any.''))"
  using matches_bound_non_Any_never_succeeds [of p g w X dialect ssaValues e g']
    matches_Constant_repetition_raises [of p g w ssaValues e loc s ty X dialect]
    matches_Operation_repetition_raises [of p g w dialect ssaValues e args X g1]
    matchesEWasm_bound_non_Any_never_succeeds [of q g w X dialect ssaValues e g']
    matchesEWasm_Constant_repetition_raises [of q g w ssaValues e loc s ty X dialect]
    matchesEWasm_Operation_repetition_raises [of q g w ssaValues e loc functionName args dialect X g1]
  by blast

theorem group_repetition_on_non_any_witness:
  "matches sampleExternals sampleDialect Map.empty (setMatchGroup 1 (Pattern_of_kind Constant))
     (Literal noLocation Number ''5'' [])
     (Map.empty(1 \<mapsto> Some (Literal noLocation Number ''5'' [])))
     = Inl (OptimizerException ''Match group repetition for non-any.'') \<and>
   matches sampleExternals sampleDialect Map.empty
     (setMatchGroup 1 (Pattern_of_instruction 1 [Pattern_of_kind Any, Pattern_of_kind Any]))
     (FunctionCall noLocation (Identifier noLocation ''add'')
        [Literal noLocation Number ''5'' [], Literal noLocation Number ''5'' []])
     (Map.empty(1 \<mapsto> Some (Literal noLocation Number ''5'' [])))
     = Inl (OptimizerException ''Match group repetition for non-any.'') \<and>
   matchesEWasm sampleExternals sampleWasmDialect Map.empty
     (setMatchGroupEWasm 1 (PatternEWasm_of_kind Constant))
     (Literal noLocation Number ''5'' [])
     (Map.empty(1 \<mapsto> Some (Literal noLocation Number ''5'' [])))
     = Inl (OptimizerException ''Match group repetition for non-any.'') \<and>
   matchesEWasm sampleExternals sampleWasmDialect Map.empty
     (setMatchGroupEWasm 1 (PatternEWasm_of_builtin ''i64.ne'' [PatternEWasm_of_kind Any, PatternEWasm_of_kind Any]))
     (FunctionCall noLocation (Identifier noLocation ''i64.ne'')
        [Literal noLocation Number ''5'' [], Literal noLocation Number ''5'' []])
     (Map.empty(1 \<mapsto> Some (Literal noLocation Number ''5'' [])))
     = Inl (OptimizerException ''Match group repetition for non-any.'')"
proof -
  note T = group_repetition_on_non_any
  let ?five = "Literal noLocation Number ''5'' []"
  let ?g = "Map.empty(1 \<mapsto> Some ?five) :: MatchGroups"
  have a: "matchesArguments sampleExternals sampleDialect Map.empty
      [Pattern_of_kind Any, Pattern_of_kind Any] [?five, ?five] ?g = Inr (True, ?g)"
    by (simp add: Pattern_of_kind_def resolveVariable_def checkMatchGroup_def andThen_simps)
  have b: "matchesArgumentsEWasm sampleExternals sampleWasmDialect Map.empty
      [PatternEWasm_of_kind Any, PatternEWasm_of_kind Any] [?five, ?five] ?g = Inr (True, ?g)"
    by (simp add: PatternEWasm_of_kind_def resolveVariable_def checkMatchGroup_def andThen_simps)
  show ?thesis
    using
      T [where p = "setMatchGroup 1 (Pattern_of_kind Constant)" and g = ?g and w = "Some ?five"
        and ssaValues = Map.empty and e = ?five and loc = noLocation and s = "''5''" and ty = "[]"
        and X = sampleExternals and dialect = sampleDialect]
      T [where p = "setMatchGroup 1 (Pattern_of_instruction 1 [Pattern_of_kind Any, Pattern_of_kind Any])"
        and g = ?g and w = "Some ?five" and ssaValues = Map.empty
        and e = "FunctionCall noLocation (Identifier noLocation ''add'') [?five, ?five]"
        and args = "[?five, ?five]" and ?g1.0 = ?g
        and X = sampleExternals and dialect = sampleDialect]
      T [where q = "setMatchGroupEWasm 1 (PatternEWasm_of_kind Constant)" and g = ?g and w = "Some ?five"
        and ssaValues = Map.empty and e = ?five and loc = noLocation and s = "''5''" and ty = "[]"
        and X = sampleExternals and dialect = sampleWasmDialect]
      T [where q = "setMatchGroupEWasm 1 (PatternEWasm_of_builtin ''i64.ne'' [PatternEWasm_of_kind Any, PatternEWasm_of_kind Any])"
        and g = ?g and w = "Some ?five" and ssaValues = Map.empty
        and e = "FunctionCall noLocation (Identifier noLocation ''i64.ne'') [?five, ?five]"
        and loc = noLocation and functionName = "Identifier noLocation ''i64.ne''"
        and args = "[?five, ?five]" and ?g1.0 = ?g
        and X = sampleExternals and dialect = sampleWasmDialect]
      a b
    by (simp add: setMatchGroup_def setMatchGroupEWasm_def Pattern_of_kind_def PatternEWasm_of_kind_def
        Pattern_of_instruction_def PatternEWasm_of_builtin_def resolveVariable_def
        sampleDialect_def sampleWasmDialect_def)
qed

subsection \<open>A bound group under a wildcard\<close>

lemma matches_Any_bound:
  "m_kind p = Any \<Longrightarrow> m_arguments p = [] \<Longrightarrow> m_matchGroup p \<noteq> 0 \<Longrightarrow>
   g (m_matchGroup p) = Some (Some firstMatch) \<Longrightarrow>
   matches X dialect ssaValues p e g =
     Inr (SyntacticallyEqual X firstMatch e \<and> movable X dialect e, g)"
  by (simp add: matches_unfold resolveVariable_Any andThen_simps checkMatchGroup_def)

lemma matchesEWasm_Any_bound:
  "m_kind_EWasm p = Any \<Longrightarrow> m_arguments_EWasm p = [] \<Longrightarrow> m_matchGroup_EWasm p \<noteq> 0 \<Longrightarrow>
   g (m_matchGroup_EWasm p) = Some (Some firstMatch) \<Longrightarrow>
   matchesEWasm X dialect ssaValues p e g =
     Inr (SyntacticallyEqual X firstMatch e \<and> movable X dialect e, g)"
  by (simp add: matchesEWasm_unfold resolveVariable_Any andThen_simps checkMatchGroup_def)

lemma instructionAndArguments_resolve:
  "instructionAndArguments dialect e = Some r \<Longrightarrow> resolveVariable kind ssaValues e = e"
  by (cases e) (simp_all add: resolveVariable_def)

lemma matches_same_group_twice:
  assumes "m_kind x = Any" and "m_arguments x = []" and "m_matchGroup x \<noteq> 0"
    and "g (m_matchGroup x) = None"
    and "instructionAndArguments dialect e = Some (instr, [e1, e2])"
  shows "matches X dialect ssaValues (Pattern_of_instruction instr [x, x]) e g =
     Inr (SyntacticallyEqual X e1 e2 \<and> movable X dialect e2, g(m_matchGroup x \<mapsto> Some e1))"
proof -
  let ?g1 = "g(m_matchGroup x \<mapsto> Some e1)"
  have first: "matches X dialect ssaValues x e1 g = Inr (True, ?g1)"
    using assms(1-4) by (rule matches_Any_binds_original)
  have second: "matches X dialect ssaValues x e2 ?g1 =
      Inr (SyntacticallyEqual X e1 e2 \<and> movable X dialect e2, ?g1)"
    using assms(1-3) by (simp add: matches_Any_bound)
  have args: "matchesArguments X dialect ssaValues [x, x] [e1, e2] g =
      Inr (SyntacticallyEqual X e1 e2 \<and> movable X dialect e2, ?g1)"
    using first second
    by (cases "SyntacticallyEqual X e1 e2 \<and> movable X dialect e2") (simp_all add: andThen_simps)
  show ?thesis
    using assms(5) args
    by (cases "SyntacticallyEqual X e1 e2 \<and> movable X dialect e2")
      (simp_all add: Pattern_of_instruction_def instructionAndArguments_resolve [OF assms(5)]
        Let_def andThen_simps checkMatchGroup_def)
qed

lemma matchesEWasm_same_group_twice:
  assumes "m_kind_EWasm x = Any" and "m_arguments_EWasm x = []" and "m_matchGroup_EWasm x \<noteq> 0"
    and "g (m_matchGroup_EWasm x) = None"
    and "builtin dialect (name functionName) \<noteq> None"
  shows "matchesEWasm X dialect ssaValues (PatternEWasm_of_builtin (name functionName) [x, x])
       (FunctionCall loc functionName [e1, e2]) g =
     Inr (SyntacticallyEqual X e1 e2 \<and> movable X dialect e2, g(m_matchGroup_EWasm x \<mapsto> Some e1))"
proof -
  let ?g1 = "g(m_matchGroup_EWasm x \<mapsto> Some e1)"
  have first: "matchesEWasm X dialect ssaValues x e1 g = Inr (True, ?g1)"
    using assms(1-4) by (rule matchesEWasm_Any_binds_original)
  have second: "matchesEWasm X dialect ssaValues x e2 ?g1 =
      Inr (SyntacticallyEqual X e1 e2 \<and> movable X dialect e2, ?g1)"
    using assms(1-3) by (simp add: matchesEWasm_Any_bound)
  have args: "matchesArgumentsEWasm X dialect ssaValues [x, x] [e1, e2] g =
      Inr (SyntacticallyEqual X e1 e2 \<and> movable X dialect e2, ?g1)"
    using first second
    by (cases "SyntacticallyEqual X e1 e2 \<and> movable X dialect e2") (simp_all add: andThen_simps)
  show ?thesis
    using assms(5) args
    by (cases "SyntacticallyEqual X e1 e2 \<and> movable X dialect e2")
      (auto simp add: PatternEWasm_of_builtin_def resolveVariable_def
        Let_def andThen_simps checkMatchGroup_def)
qed

text \<open>
  Claim C2, as stated for every pattern, fails for a pattern that is not a wildcard. Pattern
  \<^verbatim>\<open>ADD(A, A)\<close> with the constant group \<open>A\<close> against \<^verbatim>\<open>add(5, 5)\<close>: the second \<open>A\<close> meets
  its group bound to a literal that is syntactically equal to the new one and movable, and
  line 262 raises instead of succeeding.
\<close>

theorem bound_constant_group_raises_on_equal_literal:
  "matches sampleExternals sampleDialect Map.empty
     (Pattern_of_instruction 1
        [setMatchGroup 1 (Pattern_of_kind Constant), setMatchGroup 1 (Pattern_of_kind Constant)])
     (FunctionCall noLocation (Identifier noLocation ''add'')
        [Literal noLocation Number ''5'' [], Literal noLocation Number ''5'' []])
     Map.empty
   = Inl (OptimizerException ''Match group repetition for non-any.'') \<and>
   SyntacticallyEqual sampleExternals (Literal noLocation Number ''5'' []) (Literal noLocation Number ''5'' []) \<and>
   movable sampleExternals sampleDialect (Literal noLocation Number ''5'' [])"
  by (simp add: Pattern_of_instruction_def setMatchGroup_def Pattern_of_kind_def sampleDialect_def
      sampleExternals_def resolveVariable_def matchConstant_def checkMatchGroup_def andThen_simps)

text \<open>
  Claim C2, amended to patterns of kind \<open>Any\<close>. When the group of an \<open>Any\<close> pattern is
  already bound, \<^verbatim>\<open>matches\<close> returns true if and only if \<^verbatim>\<open>SyntacticallyEqual\<close> holds of
  the stored and the new expression and the new expression is movable; the table stays as it
  is. So a pattern \<open>X op X\<close> against an operation with the children \<open>e1\<close> and \<open>e2\<close> binds
  \<open>X\<close> to \<open>e1\<close> and returns whether \<open>e1\<close> and \<open>e2\<close> are syntactically equal and \<open>e2\<close> is
  movable; where movability agrees on syntactically equal expressions, that is whether they
  are equal and both movable.
\<close>

theorem bound_group_requires_equal_and_movable:
  "(m_kind p = Any \<and> m_arguments p = [] \<and> m_matchGroup p \<noteq> 0 \<and>
    g (m_matchGroup p) = Some (Some firstMatch) \<longrightarrow>
      matches X dialect ssaValues p e g =
        Inr (SyntacticallyEqual X firstMatch e \<and> movable X dialect e, g)) \<and>
   (m_kind_EWasm q = Any \<and> m_arguments_EWasm q = [] \<and> m_matchGroup_EWasm q \<noteq> 0 \<and>
    g (m_matchGroup_EWasm q) = Some (Some firstMatch) \<longrightarrow>
      matchesEWasm X dialect ssaValues q e g =
        Inr (SyntacticallyEqual X firstMatch e \<and> movable X dialect e, g)) \<and>
   (m_kind p = Any \<and> m_arguments p = [] \<and> m_matchGroup p \<noteq> 0 \<and> g (m_matchGroup p) = None \<and>
    instructionAndArguments dialect e = Some (instr, [e1, e2]) \<longrightarrow>
      matches X dialect ssaValues (Pattern_of_instruction instr [p, p]) e g =
        Inr (SyntacticallyEqual X e1 e2 \<and> movable X dialect e2, g(m_matchGroup p \<mapsto> Some e1)) \<and>
      ((SyntacticallyEqual X e1 e2 \<longrightarrow> movable X dialect e1 = movable X dialect e2) \<longrightarrow>
        matches X dialect ssaValues (Pattern_of_instruction instr [p, p]) e g =
          Inr (SyntacticallyEqual X e1 e2 \<and> movable X dialect e1 \<and> movable X dialect e2,
               g(m_matchGroup p \<mapsto> Some e1)))) \<and>
   (m_kind_EWasm q = Any \<and> m_arguments_EWasm q = [] \<and> m_matchGroup_EWasm q \<noteq> 0 \<and>
    g (m_matchGroup_EWasm q) = None \<and> builtin dialect (name functionName) \<noteq> None \<longrightarrow>
      matchesEWasm X dialect ssaValues (PatternEWasm_of_builtin (name functionName) [q, q])
        (FunctionCall loc functionName [e1, e2]) g =
        Inr (SyntacticallyEqual X e1 e2 \<and> movable X dialect e2, g(m_matchGroup_EWasm q \<mapsto> Some e1)) \<and>
      ((SyntacticallyEqual X e1 e2 \<longrightarrow> movable X dialect e1 = movable X dialect e2) \<longrightarrow>
        matchesEWasm X dialect ssaValues (PatternEWasm_of_builtin (name functionName) [q, q])
          (FunctionCall loc functionName [e1, e2]) g =
          Inr (SyntacticallyEqual X e1 e2 \<and> movable X dialect e1 \<and> movable X dialect e2,
               g(m_matchGroup_EWasm q \<mapsto> Some e1))))"
  using matches_Any_bound [of p g firstMatch X dialect ssaValues e]
    matchesEWasm_Any_bound [of q g firstMatch X dialect ssaValues e]
    matches_same_group_twice [of p g dialect e instr e1 e2 X ssaValues]
    matchesEWasm_same_group_twice [of q g dialect functionName X ssaValues loc e1 e2]
  by (auto simp del: matches.simps matchesEWasm.simps)

theorem bound_group_requires_equal_and_movable_witness:
  "matches sampleExternals sampleDialect Map.empty (setMatchGroup 5 (Pattern_of_kind Any))
     (IdentifierExpr (Identifier noLocation ''a''))
     (Map.empty(5 \<mapsto> Some (IdentifierExpr (Identifier noLocation ''a''))))
     = Inr (True, Map.empty(5 \<mapsto> Some (IdentifierExpr (Identifier noLocation ''a'')))) \<and>
   matches sampleExternals sampleDialect Map.empty
     (Pattern_of_instruction 1 [setMatchGroup 5 (Pattern_of_kind Any), setMatchGroup 5 (Pattern_of_kind Any)])
     (FunctionCall noLocation (Identifier noLocation ''add'')
        [IdentifierExpr (Identifier noLocation ''a''), IdentifierExpr (Identifier noLocation ''a'')])
     Map.empty
     = Inr (True, Map.empty(5 \<mapsto> Some (IdentifierExpr (Identifier noLocation ''a'')))) \<and>
   matches sampleExternals sampleDialect Map.empty
     (Pattern_of_instruction 1 [setMatchGroup 5 (Pattern_of_kind Any), setMatchGroup 5 (Pattern_of_kind Any)])
     (FunctionCall noLocation (Identifier noLocation ''add'')
        [IdentifierExpr (Identifier noLocation ''a''), IdentifierExpr (Identifier noLocation ''b'')])
     Map.empty
     = Inr (False, Map.empty(5 \<mapsto> Some (IdentifierExpr (Identifier noLocation ''a'')))) \<and>
   matches sampleExternals sampleDialect Map.empty
     (Pattern_of_instruction 1 [setMatchGroup 5 (Pattern_of_kind Any), setMatchGroup 5 (Pattern_of_kind Any)])
     (FunctionCall noLocation (Identifier noLocation ''add'')
        [FunctionCall noLocation (Identifier noLocation ''f'') [],
         FunctionCall noLocation (Identifier noLocation ''f'') []])
     Map.empty
     = Inr (False, Map.empty(5 \<mapsto> Some (FunctionCall noLocation (Identifier noLocation ''f'') []))) \<and>
   matchesEWasm sampleExternals sampleWasmDialect Map.empty
     (PatternEWasm_of_builtin ''i64.ne''
        [setMatchGroupEWasm 5 (PatternEWasm_of_kind Any), setMatchGroupEWasm 5 (PatternEWasm_of_kind Any)])
     (FunctionCall noLocation (Identifier noLocation ''i64.ne'')
        [IdentifierExpr (Identifier noLocation ''a''), IdentifierExpr (Identifier noLocation ''a'')])
     Map.empty
     = Inr (True, Map.empty(5 \<mapsto> Some (IdentifierExpr (Identifier noLocation ''a''))))"
proof -
  note T = bound_group_requires_equal_and_movable
  let ?a = "IdentifierExpr (Identifier noLocation ''a'')"
  let ?b = "IdentifierExpr (Identifier noLocation ''b'')"
  let ?f = "FunctionCall noLocation (Identifier noLocation ''f'') []"
  let ?X = "setMatchGroup 5 (Pattern_of_kind Any)"
  let ?Q = "setMatchGroupEWasm 5 (PatternEWasm_of_kind Any)"
  have sel: "m_kind ?X = Any" "m_arguments ?X = []" "m_matchGroup ?X = 5"
    "m_kind_EWasm ?Q = Any" "m_arguments_EWasm ?Q = []" "m_matchGroup_EWasm ?Q = 5"
    by (simp_all add: setMatchGroup_def setMatchGroupEWasm_def Pattern_of_kind_def PatternEWasm_of_kind_def)
  have ia: "instructionAndArguments sampleDialect
      (FunctionCall noLocation (Identifier noLocation ''add'') [u, v]) = Some (1, [u, v])" for u v
    by (simp add: sampleDialect_def)
  have bi: "builtin sampleWasmDialect (name (Identifier noLocation ''i64.ne'')) \<noteq> None"
    by (simp add: sampleWasmDialect_def)
  have ext: "SyntacticallyEqual sampleExternals u v = (u = v)"
    "movable sampleExternals d ?a" "movable sampleExternals d ?b" "\<not> movable sampleExternals d ?f" for u v d
    by (simp_all add: sampleExternals_def)
  have w1: "matches sampleExternals sampleDialect Map.empty ?X ?a (Map.empty(5 \<mapsto> Some ?a))
      = Inr (True, Map.empty(5 \<mapsto> Some ?a))"
    using T [where p = ?X and g = "Map.empty(5 \<mapsto> Some ?a)" and firstMatch = ?a and e = ?a
        and X = sampleExternals and dialect = sampleDialect and ssaValues = Map.empty,
        THEN conjunct1]
    by (simp add: sel ext)
  have w2: "matches sampleExternals sampleDialect Map.empty (Pattern_of_instruction 1 [?X, ?X])
      (FunctionCall noLocation (Identifier noLocation ''add'') [u, v]) Map.empty
      = Inr (u = v \<and> movable sampleExternals sampleDialect u \<and> movable sampleExternals sampleDialect v,
             Map.empty(5 \<mapsto> Some u))" for u v
    using T [where p = ?X and g = Map.empty and dialect = sampleDialect and instr = 1
        and e = "FunctionCall noLocation (Identifier noLocation ''add'') [u, v]"
        and ?e1.0 = u and ?e2.0 = v and X = sampleExternals and ssaValues = Map.empty,
        THEN conjunct2, THEN conjunct2, THEN conjunct1]
    by (auto simp add: sel ia ext simp del: matches.simps instructionAndArguments.simps)
  have w3: "matchesEWasm sampleExternals sampleWasmDialect Map.empty
      (PatternEWasm_of_builtin ''i64.ne'' [?Q, ?Q])
      (FunctionCall noLocation (Identifier noLocation ''i64.ne'') [?a, ?a]) Map.empty
      = Inr (True, Map.empty(5 \<mapsto> Some ?a))"
    using T [where q = ?Q and g = Map.empty and dialect = sampleWasmDialect
        and functionName = "Identifier noLocation ''i64.ne''" and loc = noLocation
        and ?e1.0 = ?a and ?e2.0 = ?a and X = sampleExternals and ssaValues = Map.empty,
        THEN conjunct2, THEN conjunct2, THEN conjunct2] bi
    by (simp add: sel ext del: matchesEWasm.simps)
  show ?thesis
    using w1 w2 [of ?a ?a] w2 [of ?a ?b] w2 [of ?f ?f] w3
    by (simp add: ext del: matches.simps matchesEWasm.simps)
qed

subsection \<open>First match in the bucket\<close>

lemma tryRules_skips:
  assumes "\<forall>r \<in> set pre.
      (\<exists>g1. m (pattern r) Map.empty = Inr (False, g1)) \<or>
      (\<exists>g1 f. m (pattern r) Map.empty = Inr (True, g1) \<and> feasible r = Some f \<and> f g1 = Inr False)"
  shows "\<exists>g1. tryRules m (pre @ rest) g = tryRules m rest g1 \<and> (pre = [] \<longrightarrow> g1 = g)"
  using assms
proof (induction pre arbitrary: g)
  case Nil
  then show ?case by simp
next
  case (Cons r pre)
  from Cons.prems have rest: "\<forall>r \<in> set pre.
      (\<exists>g1. m (pattern r) Map.empty = Inr (False, g1)) \<or>
      (\<exists>g1 f. m (pattern r) Map.empty = Inr (True, g1) \<and> feasible r = Some f \<and> f g1 = Inr False)"
    by simp
  from Cons.prems have "(\<exists>g1. m (pattern r) Map.empty = Inr (False, g1)) \<or>
      (\<exists>g1 f. m (pattern r) Map.empty = Inr (True, g1) \<and> feasible r = Some f \<and> f g1 = Inr False)"
    by simp
  then obtain g2 where "tryRules m ((r # pre) @ rest) g = tryRules m (pre @ rest) g2"
    by auto
  with Cons.IH [of g2] rest show ?case by auto
qed

lemma tryRules_accepts:
  assumes "m (pattern r) Map.empty = Inr (True, g')"
    and "feasible r = None \<or> (\<exists>f. feasible r = Some f \<and> f g' = Inr True)"
  shows "tryRules m (r # post) g = Inr (Some r, g')"
  using assms by auto

lemma tryRules_first:
  assumes "\<forall>r \<in> set pre.
      (\<exists>g1. m (pattern r) Map.empty = Inr (False, g1)) \<or>
      (\<exists>g1 f. m (pattern r) Map.empty = Inr (True, g1) \<and> feasible r = Some f \<and> f g1 = Inr False)"
    and "m (pattern r) Map.empty = Inr (True, g')"
    and "feasible r = None \<or> (\<exists>f. feasible r = Some f \<and> f g' = Inr True)"
  shows "tryRules m (pre @ r # post) g = Inr (Some r, g')"
proof -
  from tryRules_skips [where m = m and pre = pre and rest = "r # post" and g = g] assms(1)
  obtain g1 where "tryRules m (pre @ r # post) g = tryRules m (r # post) g1"
    by blast
  with tryRules_accepts [where m = m and r = r and g' = g' and post = post and g = g1] assms(2,3)
  show ?thesis by simp
qed

lemma tryRules_found:
  "tryRules m rs g = Inr (Some r, g') \<Longrightarrow>
   \<exists>pre post. rs = pre @ r # post \<and>
     (\<forall>q \<in> set pre.
        (\<exists>g1. m (pattern q) Map.empty = Inr (False, g1)) \<or>
        (\<exists>g1 f. m (pattern q) Map.empty = Inr (True, g1) \<and> feasible q = Some f \<and> f g1 = Inr False)) \<and>
     m (pattern r) Map.empty = Inr (True, g') \<and>
     (feasible r = None \<or> (\<exists>f. feasible r = Some f \<and> f g' = Inr True))"
proof (induction rs arbitrary: g)
  case Nil
  then show ?case by simp
next
  case (Cons a rs)
  let ?rej = "\<lambda>q. (\<exists>g1. m (pattern q) Map.empty = Inr (False, g1)) \<or>
        (\<exists>g1 f. m (pattern q) Map.empty = Inr (True, g1) \<and> feasible q = Some f \<and> f g1 = Inr False)"
  let ?acc = "m (pattern r) Map.empty = Inr (True, g') \<and>
     (feasible r = None \<or> (\<exists>f. feasible r = Some f \<and> f g' = Inr True))"
  from Cons.prems consider
    (here) "a = r" "?acc"
    | (later) g1 where "?rej a" "tryRules m rs g1 = Inr (Some r, g')"
    by (auto split: sum.splits prod.splits if_splits option.splits)
  then show ?case
  proof cases
    case here
    then have "a # rs = [] @ r # rs \<and> (\<forall>q \<in> set []. ?rej q) \<and> ?acc" by simp
    then show ?thesis by blast
  next
    case later
    from Cons.IH [OF later(2)] obtain pre post where
      "rs = pre @ r # post" "\<forall>q \<in> set pre. ?rej q" "?acc"
      by blast
    with later(1) have "a # rs = (a # pre) @ r # post \<and> (\<forall>q \<in> set (a # pre). ?rej q) \<and> ?acc"
      by simp
    then show ?thesis by blast
  qed
qed

lemma addRule_appends:
  "addRule rules rule = Inr rules' \<Longrightarrow>
   m_kind (pattern rule) = Operation \<and>
   m_rules rules' (m_instruction (pattern rule)) = m_rules rules (m_instruction (pattern rule)) @ [rule] \<and>
   (\<forall>i. i \<noteq> m_instruction (pattern rule) \<longrightarrow> m_rules rules' i = m_rules rules i)"
  by (auto simp add: addRule_def Pattern_instruction_def split: if_splits)

lemma addRuleEWasm_appends:
  "addRuleEWasm rules rule = Inr rules' \<Longrightarrow> m_instruction_EWasm (pattern rule) \<noteq> [] \<Longrightarrow>
   m_kind_EWasm (pattern rule) = Operation \<and>
   m_rulesEWasm rules' (m_instruction_EWasm (pattern rule)) =
     m_rulesEWasm rules (m_instruction_EWasm (pattern rule)) @ [rule] \<and>
   (\<forall>i. i \<noteq> m_instruction_EWasm (pattern rule) \<longrightarrow> m_rulesEWasm rules' i = m_rulesEWasm rules i)"
  by (auto simp add: addRuleEWasm_def PatternEWasm_builtin_def split: if_splits)

lemma findFirstMatch_first:
  assumes "isInitialized rules" and "instructionAndArguments dialect e = Some (instr, args)"
    and "m_rules rules instr = pre @ r # post"
    and "\<forall>q \<in> set pre.
      (\<exists>g1. matches X dialect ssaValues (pattern q) e Map.empty = Inr (False, g1)) \<or>
      (\<exists>g1 f. matches X dialect ssaValues (pattern q) e Map.empty = Inr (True, g1) \<and>
         feasible q = Some f \<and> f g1 = Inr False)"
    and "matches X dialect ssaValues (pattern r) e Map.empty = Inr (True, g')"
    and "feasible r = None \<or> (\<exists>f. feasible r = Some f \<and> f g' = Inr True)"
  shows "findFirstMatch X rules e dialect ssaValues = Inr (Some r, rules\<lparr>m_matchGroups := g'\<rparr>)"
proof -
  have "tryRules (\<lambda>p. matches X dialect ssaValues p e) (pre @ r # post) (m_matchGroups rules)
      = Inr (Some r, g')"
    using assms(4-6)
    by (intro tryRules_first [where m = "\<lambda>p. matches X dialect ssaValues p e"]) 
  with assms(1-3) show ?thesis
    by (simp add: findFirstMatch_def withMatchGroups_def)
qed

lemma findFirstMatch_found:
  assumes "findFirstMatch X rules e dialect ssaValues = Inr (Some r, rules')"
  shows "\<exists>instr args pre post.
     instructionAndArguments dialect e = Some (instr, args) \<and>
     m_rules rules instr = pre @ r # post \<and>
     (\<forall>q \<in> set pre.
        (\<exists>g1. matches X dialect ssaValues (pattern q) e Map.empty = Inr (False, g1)) \<or>
        (\<exists>g1 f. matches X dialect ssaValues (pattern q) e Map.empty = Inr (True, g1) \<and>
           feasible q = Some f \<and> f g1 = Inr False)) \<and>
     matches X dialect ssaValues (pattern r) e Map.empty = Inr (True, m_matchGroups rules') \<and>
     (feasible r = None \<or> (\<exists>f. feasible r = Some f \<and> f (m_matchGroups rules') = Inr True))"
proof -
  from assms obtain instr args g' where
    ia: "instructionAndArguments dialect e = Some (instr, args)"
    and t: "tryRules (\<lambda>p. matches X dialect ssaValues p e) (m_rules rules instr) (m_matchGroups rules)
      = Inr (Some r, g')"
    and r': "rules' = rules\<lparr>m_matchGroups := g'\<rparr>"
    by (auto simp add: findFirstMatch_def withMatchGroups_def
        split: if_splits option.splits sum.splits prod.splits)
  from tryRules_found [OF t] r' ia show ?thesis by auto
qed

lemma findFirstMatchEWasm_first:
  assumes "isInitialized rules" and "builtin dialect (name functionName) \<noteq> None"
    and "m_rulesEWasm rules (name functionName) = pre @ r # post"
    and "\<forall>q \<in> set pre.
      (\<exists>g1. matchesEWasm X dialect ssaValues (pattern q) (FunctionCall loc functionName args) Map.empty
         = Inr (False, g1)) \<or>
      (\<exists>g1 f. matchesEWasm X dialect ssaValues (pattern q) (FunctionCall loc functionName args) Map.empty
         = Inr (True, g1) \<and> feasible q = Some f \<and> f g1 = Inr False)"
    and "matchesEWasm X dialect ssaValues (pattern r) (FunctionCall loc functionName args) Map.empty
      = Inr (True, g')"
    and "feasible r = None \<or> (\<exists>f. feasible r = Some f \<and> f g' = Inr True)"
  shows "findFirstMatchEWasm X rules (FunctionCall loc functionName args) dialect ssaValues
    = Inr (Some r, rules\<lparr>m_matchGroups := g'\<rparr>)"
proof -
  have "tryRules (\<lambda>p. matchesEWasm X dialect ssaValues p (FunctionCall loc functionName args))
      (pre @ r # post) (m_matchGroups rules) = Inr (Some r, g')"
    using assms(4-6)
    by (intro tryRules_first
        [where m = "\<lambda>p. matchesEWasm X dialect ssaValues p (FunctionCall loc functionName args)"])
  with assms(1-3) show ?thesis
    by (auto simp add: findFirstMatchEWasm_def withMatchGroups_def)
qed

lemma findFirstMatchEWasm_found:
  assumes "findFirstMatchEWasm X rules e dialect ssaValues = Inr (Some r, rules')"
  shows "\<exists>loc functionName args pre post.
     e = FunctionCall loc functionName args \<and> builtin dialect (name functionName) \<noteq> None \<and>
     m_rulesEWasm rules (name functionName) = pre @ r # post \<and>
     (\<forall>q \<in> set pre.
        (\<exists>g1. matchesEWasm X dialect ssaValues (pattern q) e Map.empty = Inr (False, g1)) \<or>
        (\<exists>g1 f. matchesEWasm X dialect ssaValues (pattern q) e Map.empty = Inr (True, g1) \<and>
           feasible q = Some f \<and> f g1 = Inr False)) \<and>
     matchesEWasm X dialect ssaValues (pattern r) e Map.empty = Inr (True, m_matchGroups rules') \<and>
     (feasible r = None \<or> (\<exists>f. feasible r = Some f \<and> f (m_matchGroups rules') = Inr True))"
proof -
  from assms obtain loc functionName args g' where
    e: "e = FunctionCall loc functionName args"
    and b: "builtin dialect (name functionName) \<noteq> None"
    and t: "tryRules (\<lambda>p. matchesEWasm X dialect ssaValues p e) (m_rulesEWasm rules (name functionName))
       (m_matchGroups rules) = Inr (Some r, g')"
    and r': "rules' = rules\<lparr>m_matchGroups := g'\<rparr>"
    by (auto simp add: findFirstMatchEWasm_def withMatchGroups_def
        split: if_splits Expression.splits sum.splits prod.splits)
  from tryRules_found [OF t] r' e b show ?thesis by auto
qed

text \<open>
  Claim C1. Let the leading operator of the expression resolve. \<^verbatim>\<open>findFirstMatch\<close> goes
  through the operator's bucket in the order of the list, runs each rule's pattern on the
  cleared table, and returns the first rule whose pattern matches and whose feasibility
  predicate, if there is one, returns true, together with the table that rule's pattern
  produced; a rule without a predicate is accepted on the match alone. Read in both
  directions: if every rule before \<open>r\<close> in the bucket is rejected (its pattern returns false, or
  matches and its predicate returns false) and \<open>r\<close> is accepted, the result is \<open>r\<close>, whatever
  follows \<open>r\<close> in the bucket; and whenever a rule is returned, the bucket splits that way. The
  same holds of \<^verbatim>\<open>findFirstMatchEWasm\<close> for a call of a builtin's name. The order of the bucket
  is the order of insertion: \<^verbatim>\<open>addRule\<close> appends.
\<close>

theorem findFirstMatch_returns_first_feasible_match:
  "(isInitialized rules \<and> instructionAndArguments dialect e = Some (instr, args) \<and>
    m_rules rules instr = pre @ r # post \<and>
    (\<forall>q \<in> set pre.
       (\<exists>g1. matches X dialect ssaValues (pattern q) e Map.empty = Inr (False, g1)) \<or>
       (\<exists>g1 f. matches X dialect ssaValues (pattern q) e Map.empty = Inr (True, g1) \<and>
          feasible q = Some f \<and> f g1 = Inr False)) \<and>
    matches X dialect ssaValues (pattern r) e Map.empty = Inr (True, g') \<and>
    (feasible r = None \<or> (\<exists>f. feasible r = Some f \<and> f g' = Inr True)) \<longrightarrow>
      findFirstMatch X rules e dialect ssaValues = Inr (Some r, rules\<lparr>m_matchGroups := g'\<rparr>)) \<and>
   (findFirstMatch X rules e dialect ssaValues = Inr (Some r, rules') \<longrightarrow>
      (\<exists>instr args pre post.
         instructionAndArguments dialect e = Some (instr, args) \<and>
         m_rules rules instr = pre @ r # post \<and>
         (\<forall>q \<in> set pre.
            (\<exists>g1. matches X dialect ssaValues (pattern q) e Map.empty = Inr (False, g1)) \<or>
            (\<exists>g1 f. matches X dialect ssaValues (pattern q) e Map.empty = Inr (True, g1) \<and>
               feasible q = Some f \<and> f g1 = Inr False)) \<and>
         matches X dialect ssaValues (pattern r) e Map.empty = Inr (True, m_matchGroups rules') \<and>
         (feasible r = None \<or> (\<exists>f. feasible r = Some f \<and> f (m_matchGroups rules') = Inr True)))) \<and>
   (isInitialized rules \<and> builtin dialect (name functionName) \<noteq> None \<and>
    m_rulesEWasm rules (name functionName) = prew @ rw # postw \<and>
    (\<forall>q \<in> set prew.
       (\<exists>g1. matchesEWasm X dialect ssaValues (pattern q) (FunctionCall loc functionName args) Map.empty
          = Inr (False, g1)) \<or>
       (\<exists>g1 f. matchesEWasm X dialect ssaValues (pattern q) (FunctionCall loc functionName args) Map.empty
          = Inr (True, g1) \<and> feasible q = Some f \<and> f g1 = Inr False)) \<and>
    matchesEWasm X dialect ssaValues (pattern rw) (FunctionCall loc functionName args) Map.empty
      = Inr (True, g') \<and>
    (feasible rw = None \<or> (\<exists>f. feasible rw = Some f \<and> f g' = Inr True)) \<longrightarrow>
      findFirstMatchEWasm X rules (FunctionCall loc functionName args) dialect ssaValues
        = Inr (Some rw, rules\<lparr>m_matchGroups := g'\<rparr>)) \<and>
   (findFirstMatchEWasm X rules e dialect ssaValues = Inr (Some rw, rules') \<longrightarrow>
      (\<exists>loc functionName args pre post.
         e = FunctionCall loc functionName args \<and> builtin dialect (name functionName) \<noteq> None \<and>
         m_rulesEWasm rules (name functionName) = pre @ rw # post \<and>
         (\<forall>q \<in> set pre.
            (\<exists>g1. matchesEWasm X dialect ssaValues (pattern q) e Map.empty = Inr (False, g1)) \<or>
            (\<exists>g1 f. matchesEWasm X dialect ssaValues (pattern q) e Map.empty = Inr (True, g1) \<and>
               feasible q = Some f \<and> f g1 = Inr False)) \<and>
         matchesEWasm X dialect ssaValues (pattern rw) e Map.empty = Inr (True, m_matchGroups rules') \<and>
         (feasible rw = None \<or> (\<exists>f. feasible rw = Some f \<and> f (m_matchGroups rules') = Inr True)))) \<and>
   (addRule rules rule = Inr rules' \<longrightarrow>
      m_rules rules' (m_instruction (pattern rule)) =
        m_rules rules (m_instruction (pattern rule)) @ [rule]) \<and>
   (addRuleEWasm rules rulew = Inr rules' \<and> m_instruction_EWasm (pattern rulew) \<noteq> [] \<longrightarrow>
      m_rulesEWasm rules' (m_instruction_EWasm (pattern rulew)) =
        m_rulesEWasm rules (m_instruction_EWasm (pattern rulew)) @ [rulew])"
proof (intro conjI impI)
  assume "isInitialized rules \<and> instructionAndArguments dialect e = Some (instr, args) \<and>
    m_rules rules instr = pre @ r # post \<and>
    (\<forall>q \<in> set pre.
       (\<exists>g1. matches X dialect ssaValues (pattern q) e Map.empty = Inr (False, g1)) \<or>
       (\<exists>g1 f. matches X dialect ssaValues (pattern q) e Map.empty = Inr (True, g1) \<and>
          feasible q = Some f \<and> f g1 = Inr False)) \<and>
    matches X dialect ssaValues (pattern r) e Map.empty = Inr (True, g') \<and>
    (feasible r = None \<or> (\<exists>f. feasible r = Some f \<and> f g' = Inr True))"
  then show "findFirstMatch X rules e dialect ssaValues = Inr (Some r, rules\<lparr>m_matchGroups := g'\<rparr>)"
    using findFirstMatch_first [of rules dialect e instr args pre r post X ssaValues g'] by blast
next
  assume "findFirstMatch X rules e dialect ssaValues = Inr (Some r, rules')"
  then show "\<exists>instr args pre post.
         instructionAndArguments dialect e = Some (instr, args) \<and>
         m_rules rules instr = pre @ r # post \<and>
         (\<forall>q \<in> set pre.
            (\<exists>g1. matches X dialect ssaValues (pattern q) e Map.empty = Inr (False, g1)) \<or>
            (\<exists>g1 f. matches X dialect ssaValues (pattern q) e Map.empty = Inr (True, g1) \<and>
               feasible q = Some f \<and> f g1 = Inr False)) \<and>
         matches X dialect ssaValues (pattern r) e Map.empty = Inr (True, m_matchGroups rules') \<and>
         (feasible r = None \<or> (\<exists>f. feasible r = Some f \<and> f (m_matchGroups rules') = Inr True))"
    by (rule findFirstMatch_found)
next
  assume "isInitialized rules \<and> builtin dialect (name functionName) \<noteq> None \<and>
    m_rulesEWasm rules (name functionName) = prew @ rw # postw \<and>
    (\<forall>q \<in> set prew.
       (\<exists>g1. matchesEWasm X dialect ssaValues (pattern q) (FunctionCall loc functionName args) Map.empty
          = Inr (False, g1)) \<or>
       (\<exists>g1 f. matchesEWasm X dialect ssaValues (pattern q) (FunctionCall loc functionName args) Map.empty
          = Inr (True, g1) \<and> feasible q = Some f \<and> f g1 = Inr False)) \<and>
    matchesEWasm X dialect ssaValues (pattern rw) (FunctionCall loc functionName args) Map.empty
      = Inr (True, g') \<and>
    (feasible rw = None \<or> (\<exists>f. feasible rw = Some f \<and> f g' = Inr True))"
  then show "findFirstMatchEWasm X rules (FunctionCall loc functionName args) dialect ssaValues
        = Inr (Some rw, rules\<lparr>m_matchGroups := g'\<rparr>)"
    using findFirstMatchEWasm_first [of rules dialect functionName prew rw postw X ssaValues loc args g']
    by blast
next
  assume "findFirstMatchEWasm X rules e dialect ssaValues = Inr (Some rw, rules')"
  then show "\<exists>loc functionName args pre post.
         e = FunctionCall loc functionName args \<and> builtin dialect (name functionName) \<noteq> None \<and>
         m_rulesEWasm rules (name functionName) = pre @ rw # post \<and>
         (\<forall>q \<in> set pre.
            (\<exists>g1. matchesEWasm X dialect ssaValues (pattern q) e Map.empty = Inr (False, g1)) \<or>
            (\<exists>g1 f. matchesEWasm X dialect ssaValues (pattern q) e Map.empty = Inr (True, g1) \<and>
               feasible q = Some f \<and> f g1 = Inr False)) \<and>
         matchesEWasm X dialect ssaValues (pattern rw) e Map.empty = Inr (True, m_matchGroups rules') \<and>
         (feasible rw = None \<or> (\<exists>f. feasible rw = Some f \<and> f (m_matchGroups rules') = Inr True))"
    by (rule findFirstMatchEWasm_found)
next
  assume "addRule rules rule = Inr rules'"
  then show "m_rules rules' (m_instruction (pattern rule)) =
        m_rules rules (m_instruction (pattern rule)) @ [rule]"
    using addRule_appends by blast
next
  assume "addRuleEWasm rules rulew = Inr rules' \<and> m_instruction_EWasm (pattern rulew) \<noteq> []"
  then show "m_rulesEWasm rules' (m_instruction_EWasm (pattern rulew)) =
        m_rulesEWasm rules (m_instruction_EWasm (pattern rulew)) @ [rulew]"
    using addRuleEWasm_appends by blast
qed

theorem findFirstMatch_returns_first_feasible_match_witness:
  "findFirstMatch sampleExternals sampleRules
     (FunctionCall noLocation (Identifier noLocation ''add'')
        [IdentifierExpr (Identifier noLocation ''y''), Literal noLocation Number ''5'' []])
     sampleDialect Map.empty
   = Inr (Some (sampleRule (Pattern_of_instruction 1
                  [setMatchGroup 5 (Pattern_of_kind Any), Pattern_of_value 5]) None),
          sampleRules\<lparr>m_matchGroups := Map.empty(5 \<mapsto> Some (IdentifierExpr (Identifier noLocation ''y'')))\<rparr>) \<and>
   findFirstMatchEWasm sampleExternals sampleRules
     (FunctionCall noLocation (Identifier noLocation ''i64.ne'')
        [IdentifierExpr (Identifier noLocation ''y''), Literal noLocation Number ''0'' []])
     sampleWasmDialect Map.empty
   = Inr (Some (sampleRuleEWasm (PatternEWasm_of_builtin ''i64.ne''
                  [setMatchGroupEWasm 5 (PatternEWasm_of_kind Any), PatternEWasm_of_value 0])),
          sampleRules\<lparr>m_matchGroups := Map.empty(5 \<mapsto> Some (IdentifierExpr (Identifier noLocation ''y'')))\<rparr>)"
proof -
  note T = findFirstMatch_returns_first_feasible_match
  let ?y = "IdentifierExpr (Identifier noLocation ''y'')"
  let ?e = "FunctionCall noLocation (Identifier noLocation ''add'') [?y, Literal noLocation Number ''5'' []]"
  let ?ew = "FunctionCall noLocation (Identifier noLocation ''i64.ne'') [?y, Literal noLocation Number ''0'' []]"
  let ?r1 = "sampleRule (Pattern_of_instruction 1
        [setMatchGroup 1 (Pattern_of_kind Constant), setMatchGroup 2 (Pattern_of_kind Constant)]) None"
  let ?r2 = "sampleRule (Pattern_of_instruction 1
        [setMatchGroup 5 (Pattern_of_kind Any), Pattern_of_value 5]) (Some (\<lambda>g. Inr False))"
  let ?r3 = "sampleRule (Pattern_of_instruction 1
        [setMatchGroup 5 (Pattern_of_kind Any), Pattern_of_value 5]) None"
  let ?r4 = "sampleRule (Pattern_of_instruction 1
        [setMatchGroup 5 (Pattern_of_kind Any), setMatchGroup 6 (Pattern_of_kind Any)]) None"
  let ?w1 = "sampleRuleEWasm (PatternEWasm_of_builtin ''i64.ne''
        [setMatchGroupEWasm 5 (PatternEWasm_of_kind Any), setMatchGroupEWasm 5 (PatternEWasm_of_kind Any)])"
  let ?w2 = "sampleRuleEWasm (PatternEWasm_of_builtin ''i64.ne''
        [setMatchGroupEWasm 1 (PatternEWasm_of_kind Constant),
         setMatchGroupEWasm 2 (PatternEWasm_of_kind Constant)])"
  let ?w3 = "sampleRuleEWasm (PatternEWasm_of_builtin ''i64.ne''
        [setMatchGroupEWasm 5 (PatternEWasm_of_kind Any), PatternEWasm_of_value 0])"
  let ?w4 = "sampleRuleEWasm (PatternEWasm_of_builtin ''i64.ne''
        [PatternEWasm_of_value 0, setMatchGroupEWasm 5 (PatternEWasm_of_kind Any)])"
  let ?g = "Map.empty(5 \<mapsto> Some ?y) :: MatchGroups"
  note defs = sampleRule_def sampleRuleEWasm_def Pattern_of_instruction_def PatternEWasm_of_builtin_def
    setMatchGroup_def setMatchGroupEWasm_def Pattern_of_kind_def PatternEWasm_of_kind_def
    Pattern_of_value_def PatternEWasm_of_value_def sampleDialect_def sampleWasmDialect_def
    sampleExternals_def resolveVariable_def matchConstant_def matchConstantEWasm_def
    checkMatchGroup_def andThen_simps
  have init: "isInitialized sampleRules"
    by (simp add: isInitialized_def sampleRules_def Instruction_ADD_def sampleBucket_def)
  have ia: "instructionAndArguments sampleDialect ?e
      = Some (1, [?y, Literal noLocation Number ''5'' []])"
    by (simp add: sampleDialect_def)
  have bucket: "m_rules sampleRules 1 = [?r1, ?r2] @ ?r3 # [?r4]"
    by (simp add: sampleRules_def sampleBucket_def)
  have m1: "matches sampleExternals sampleDialect Map.empty (pattern ?r1) ?e Map.empty
      = Inr (False, Map.empty)"
    by (simp add: defs)
  have m2: "matches sampleExternals sampleDialect Map.empty (pattern ?r2) ?e Map.empty = Inr (True, ?g)"
    by (simp add: defs)
  have f2: "feasible ?r2 = Some (\<lambda>g. Inr False)"
    by (simp add: sampleRule_def)
  have m3: "matches sampleExternals sampleDialect Map.empty (pattern ?r3) ?e Map.empty = Inr (True, ?g)"
    by (simp add: defs)
  have f3: "feasible ?r3 = None"
    by (simp add: sampleRule_def)
  have pre: "\<forall>q \<in> set [?r1, ?r2].
      (\<exists>g1. matches sampleExternals sampleDialect Map.empty (pattern q) ?e Map.empty = Inr (False, g1)) \<or>
      (\<exists>g1 f. matches sampleExternals sampleDialect Map.empty (pattern q) ?e Map.empty = Inr (True, g1) \<and>
         feasible q = Some f \<and> f g1 = Inr False)"
    using m1 m2 f2 by (simp del: matches.simps)
  have wide: "findFirstMatch sampleExternals sampleRules ?e sampleDialect Map.empty
      = Inr (Some ?r3, sampleRules\<lparr>m_matchGroups := ?g\<rparr>)"
    using T [where rules = sampleRules and dialect = sampleDialect and e = ?e and instr = 1
        and args = "[?y, Literal noLocation Number ''5'' []]" and pre = "[?r1, ?r2]" and r = ?r3
        and post = "[?r4]" and X = sampleExternals and ssaValues = Map.empty and g' = ?g,
        THEN conjunct1] init ia bucket pre m3 f3
    by blast
  have bi: "builtin sampleWasmDialect (name (Identifier noLocation ''i64.ne'')) \<noteq> None"
    by (simp add: sampleWasmDialect_def)
  have bucketw: "m_rulesEWasm sampleRules (name (Identifier noLocation ''i64.ne'')) = [?w1, ?w2] @ ?w3 # [?w4]"
    by (simp add: sampleRules_def sampleBucketEWasm_def)
  have n1: "matchesEWasm sampleExternals sampleWasmDialect Map.empty (pattern ?w1) ?ew Map.empty
      = Inr (False, ?g)"
    by (simp add: defs)
  have n2: "matchesEWasm sampleExternals sampleWasmDialect Map.empty (pattern ?w2) ?ew Map.empty
      = Inr (False, Map.empty)"
    by (simp add: defs)
  have n3: "matchesEWasm sampleExternals sampleWasmDialect Map.empty (pattern ?w3) ?ew Map.empty
      = Inr (True, ?g)"
    by (simp add: defs)
  have fw3: "feasible ?w3 = None"
    by (simp add: sampleRuleEWasm_def)
  have prew: "\<forall>q \<in> set [?w1, ?w2].
      (\<exists>g1. matchesEWasm sampleExternals sampleWasmDialect Map.empty (pattern q) ?ew Map.empty = Inr (False, g1)) \<or>
      (\<exists>g1 f. matchesEWasm sampleExternals sampleWasmDialect Map.empty (pattern q) ?ew Map.empty = Inr (True, g1) \<and>
         feasible q = Some f \<and> f g1 = Inr False)"
    using n1 n2 by (simp del: matchesEWasm.simps)
  have narrow: "findFirstMatchEWasm sampleExternals sampleRules ?ew sampleWasmDialect Map.empty
      = Inr (Some ?w3, sampleRules\<lparr>m_matchGroups := ?g\<rparr>)"
    using T [where rules = sampleRules and dialect = sampleWasmDialect
        and functionName = "Identifier noLocation ''i64.ne''" and loc = noLocation
        and args = "[?y, Literal noLocation Number ''0'' []]" and prew = "[?w1, ?w2]" and rw = ?w3
        and postw = "[?w4]" and X = sampleExternals and ssaValues = Map.empty and g' = ?g,
        THEN conjunct2, THEN conjunct2, THEN conjunct1] init bi bucketw prew n3 fw3
    by blast
  from wide narrow show ?thesis by (rule conjI)
qed

subsection \<open>Expressions without a leading operator\<close>

lemma findFirstMatch_unresolved:
  "isInitialized rules \<Longrightarrow> instructionAndArguments dialect e = None \<Longrightarrow>
   findFirstMatch X rules e dialect ssaValues = Inr (None, rules)"
  by (simp add: findFirstMatch_def)

lemma findFirstMatchEWasm_unresolved:
  "isInitialized rules \<Longrightarrow>
   \<forall>loc functionName args. e = FunctionCall loc functionName args \<longrightarrow> builtin dialect (name functionName) = None \<Longrightarrow>
   findFirstMatchEWasm X rules e dialect ssaValues = Inr (None, rules)"
  by (cases e) (simp_all add: findFirstMatchEWasm_def)

text \<open>
  Claim C7. When the leading operator of the expression does not resolve,
  \<^verbatim>\<open>findFirstMatch\<close> returns null and raises nothing: the engine, its match-group table
  included, is returned as it was, whatever rules it holds, so no pattern was run and the
  table was not cleared. The operator does not resolve for a literal, for a variable reference
  and for a call of a name that is no builtin of the dialect. \<^verbatim>\<open>findFirstMatchEWasm\<close> does the
  same for every expression that is not a call of a builtin's name.
\<close>

theorem unresolved_operator_gives_no_match:
  "(isInitialized rules \<and> instructionAndArguments dialect e = None \<longrightarrow>
      findFirstMatch X rules e dialect ssaValues = Inr (None, rules)) \<and>
   (isInitialized rules \<and>
    (\<forall>loc functionName args. e = FunctionCall loc functionName args \<longrightarrow>
       builtin dialect (name functionName) = None) \<longrightarrow>
      findFirstMatchEWasm X rules e dialect ssaValues = Inr (None, rules)) \<and>
   instructionAndArguments dialect (Literal loc kind v ty) = None \<and>
   instructionAndArguments dialect (IdentifierExpr idn) = None \<and>
   (builtin dialect (name functionName) = None \<longrightarrow>
      instructionAndArguments dialect (FunctionCall loc functionName args) = None)"
  using findFirstMatch_unresolved [of rules dialect e X ssaValues]
    findFirstMatchEWasm_unresolved [of rules e dialect X ssaValues]
  by simp

theorem unresolved_operator_gives_no_match_witness:
  "findFirstMatch sampleExternals sampleRules (Literal noLocation Number ''5'' []) sampleDialect Map.empty
     = Inr (None, sampleRules) \<and>
   findFirstMatch sampleExternals sampleRules (IdentifierExpr (Identifier noLocation ''y''))
     sampleDialect Map.empty = Inr (None, sampleRules) \<and>
   findFirstMatch sampleExternals sampleRules
     (FunctionCall noLocation (Identifier noLocation ''f'') [Literal noLocation Number ''5'' []])
     sampleDialect Map.empty = Inr (None, sampleRules) \<and>
   findFirstMatchEWasm sampleExternals sampleRules (Literal noLocation Number ''5'' [])
     sampleWasmDialect Map.empty = Inr (None, sampleRules) \<and>
   findFirstMatchEWasm sampleExternals sampleRules
     (FunctionCall noLocation (Identifier noLocation ''f'') [Literal noLocation Number ''5'' []])
     sampleWasmDialect Map.empty = Inr (None, sampleRules)"
proof -
  note T = unresolved_operator_gives_no_match
  let ?five = "Literal noLocation Number ''5'' []"
  let ?f = "FunctionCall noLocation (Identifier noLocation ''f'') [?five]"
  have init: "isInitialized sampleRules"
    by (simp add: isInitialized_def sampleRules_def Instruction_ADD_def sampleBucket_def)
  have nf: "builtin sampleDialect (name (Identifier noLocation ''f'')) = None"
    "builtin sampleWasmDialect (name (Identifier noLocation ''f'')) = None"
    by (simp_all add: sampleDialect_def sampleWasmDialect_def)
  have w1: "findFirstMatch sampleExternals sampleRules e sampleDialect Map.empty = Inr (None, sampleRules)"
    if "instructionAndArguments sampleDialect e = None" for e
    using T [where rules = sampleRules and dialect = sampleDialect and e = e and X = sampleExternals
        and ssaValues = Map.empty, THEN conjunct1] init that
    by blast
  have w2: "findFirstMatchEWasm sampleExternals sampleRules e sampleWasmDialect Map.empty
      = Inr (None, sampleRules)"
    if "\<forall>loc functionName args. e = FunctionCall loc functionName args \<longrightarrow>
       builtin sampleWasmDialect (name functionName) = None" for e
    using T [where rules = sampleRules and dialect = sampleWasmDialect and e = e and X = sampleExternals
        and ssaValues = Map.empty, THEN conjunct2, THEN conjunct1] init that
    by blast
  have u3: "instructionAndArguments sampleDialect ?f = None"
    using T [where dialect = sampleDialect and functionName = "Identifier noLocation ''f''"
        and loc = noLocation and args = "[?five]", THEN conjunct2, THEN conjunct2, THEN conjunct2,
        THEN conjunct2] nf(1)
    by blast
  show ?thesis
    using w1 [of ?five] w1 [of "IdentifierExpr (Identifier noLocation ''y'')"] w1 [OF u3]
      w2 [of ?five] w2 [of ?f] nf(2)
    by simp
qed

subsection \<open>Reconstruction of a bound group\<close>

lemma ASTCopier_translate_same: "ASTCopier_translate e = e"
  by (induction e) (simp_all add: map_idI)

lemma toExpression_of_bound_group:
  "m_matchGroup p \<noteq> 0 \<Longrightarrow> g (m_matchGroup p) = Some (Some b) \<Longrightarrow>
   toExpression X loc g p = Inr (ASTCopier_translate b)"
  by (cases p) (simp add: matchGroupValue_def)

lemma matches_Any_binds:
  assumes "m_kind p = Any" and "m_matchGroup p \<noteq> 0" and "g (m_matchGroup p) = None"
    and "matches X dialect ssaValues p e g = Inr (True, g')"
  shows "g' = g(m_matchGroup p \<mapsto> Some e)"
proof (cases "m_arguments p = []")
  case True
  with assms show ?thesis
    by (simp add: matches_Any_binds_original)
next
  case False
  with assms(1,4) show ?thesis
    by (simp add: matches_unfold andThen_simps)
qed

lemma matches_Any_rebound:
  assumes "m_kind p = Any" and "m_matchGroup p \<noteq> 0" and "g (m_matchGroup p) = Some (Some b)"
    and "matches X dialect ssaValues p e g = Inr (True, g')"
  shows "g' = g \<and> SyntacticallyEqual X b e"
proof (cases "m_arguments p = []")
  case True
  with assms show ?thesis
    by (simp add: matches_Any_bound)
next
  case False
  with assms(1,4) show ?thesis
    by (simp add: matches_unfold andThen_simps)
qed

lemma toExpressionEWasm_of_bound_group:
  "m_matchGroup_EWasm q \<noteq> 0 \<Longrightarrow> g (m_matchGroup_EWasm q) = Some (Some b) \<Longrightarrow>
   toExpressionEWasm X loc g q = Inr (ASTCopier_translate b)"
  by (cases q) (simp add: matchGroupValue_def)

lemma matchesEWasm_Any_binds:
  assumes "m_kind_EWasm q = Any" and "m_matchGroup_EWasm q \<noteq> 0" and "g (m_matchGroup_EWasm q) = None"
    and "matchesEWasm X dialect ssaValues q e g = Inr (True, g')"
  shows "g' = g(m_matchGroup_EWasm q \<mapsto> Some e)"
proof (cases "m_arguments_EWasm q = []")
  case True
  with assms show ?thesis
    by (simp add: matchesEWasm_Any_binds_original)
next
  case False
  with assms(1,4) show ?thesis
    by (simp add: matchesEWasm_unfold andThen_simps)
qed

lemma matchesEWasm_Any_rebound:
  assumes "m_kind_EWasm q = Any" and "m_matchGroup_EWasm q \<noteq> 0"
    and "g (m_matchGroup_EWasm q) = Some (Some b)"
    and "matchesEWasm X dialect ssaValues q e g = Inr (True, g')"
  shows "g' = g \<and> SyntacticallyEqual X b e"
proof (cases "m_arguments_EWasm q = []")
  case True
  with assms show ?thesis
    by (simp add: matchesEWasm_Any_bound)
next
  case False
  with assms(1,4) show ?thesis
    by (simp add: matchesEWasm_unfold andThen_simps)
qed

lemma matches_Constant_bound_is_not_the_variable:
  assumes "m_kind p = Constant" and "ssaValues x = Some (Some v)"
    and "matches X dialect ssaValues p (IdentifierExpr (Identifier l x)) g = Inr (True, g')"
  shows "\<exists>loc' s ty. v = Literal loc' Number s ty"
proof (rule ccontr)
  assume "\<not> (\<exists>loc' s ty. v = Literal loc' Number s ty)"
  then have "\<forall>loc' s ty. resolveVariable Constant ssaValues (IdentifierExpr (Identifier l x))
      \<noteq> Literal loc' Number s ty"
    using assms(2) by (simp add: resolveVariable_known)
  from matches_Constant_not_numeric [OF assms(1) this] assms(3) show False by simp
qed

lemma matchesEWasm_Constant_bound_is_not_the_variable:
  assumes "m_kind_EWasm q = Constant" and "ssaValues x = Some (Some v)"
    and "matchesEWasm X dialect ssaValues q (IdentifierExpr (Identifier l x)) g = Inr (True, g')"
  shows "\<exists>loc' s ty. v = Literal loc' Number s ty"
proof (rule ccontr)
  assume "\<not> (\<exists>loc' s ty. v = Literal loc' Number s ty)"
  then have "\<forall>loc' s ty. resolveVariable Constant ssaValues (IdentifierExpr (Identifier l x))
      \<noteq> Literal loc' Number s ty"
    using assms(2) by (simp add: resolveVariable_known)
  from matchesEWasm_Constant_not_numeric [OF assms(1) this] assms(3) show False by simp
qed

text \<open>
  Claim C9. For a pattern whose group is bound, \<^verbatim>\<open>toExpression\<close> returns the deep copy of the
  bound expression, and the copy is the same tree as the bound expression. After a successful
  match that bound the group, the bound expression is the one matching proceeded against: the
  expression as given for a pattern of kind \<open>Any\<close>, the expression after the SSA substitution
  for a pattern of kind \<open>Constant\<close>. So where a \<open>Constant\<close> pattern matched a variable
  reference through its SSA value, \<^verbatim>\<open>toExpression\<close> returns that value, a numeric literal, and
  not the variable reference that stood in the expression. Where an \<open>Any\<close> pattern met its
  group already bound, the copy is of the first binding, syntactically equal to the expression
  matched now. Matching further patterns in the same attempt keeps the binding. All of this
  holds for \<^verbatim>\<open>Pattern\<close> and, statement by statement, for \<^verbatim>\<open>PatternEWasm\<close>.
\<close>

theorem toExpression_reproduces_bound_expression:
  "(m_matchGroup p \<noteq> 0 \<and> g (m_matchGroup p) = Some (Some b) \<longrightarrow>
      toExpression X loc g p = Inr (ASTCopier_translate b) \<and> ASTCopier_translate b = b) \<and>
   (m_kind p = Any \<and> m_matchGroup p \<noteq> 0 \<and> g (m_matchGroup p) = None \<and>
    matches X dialect ssaValues p e g = Inr (True, g') \<longrightarrow>
      toExpression X loc g' p = Inr e) \<and>
   (m_kind p = Any \<and> m_matchGroup p \<noteq> 0 \<and> g (m_matchGroup p) = Some (Some b) \<and>
    matches X dialect ssaValues p e g = Inr (True, g') \<longrightarrow>
      toExpression X loc g' p = Inr b \<and> SyntacticallyEqual X b e) \<and>
   (m_kind p = Constant \<and> m_matchGroup p \<noteq> 0 \<and> g (m_matchGroup p) = None \<and>
    matches X dialect ssaValues p e g = Inr (True, g') \<longrightarrow>
      toExpression X loc g' p = Inr (resolveVariable Constant ssaValues e)) \<and>
   (m_kind p = Constant \<and> m_matchGroup p \<noteq> 0 \<and> g (m_matchGroup p) = None \<and>
    ssaValues x = Some (Some v) \<and>
    matches X dialect ssaValues p (IdentifierExpr (Identifier l x)) g = Inr (True, g') \<longrightarrow>
      toExpression X loc g' p = Inr v \<and> v \<noteq> IdentifierExpr (Identifier l x)) \<and>
   (m_matchGroup p \<noteq> 0 \<and> g (m_matchGroup p) = Some (Some b) \<and>
    matches X dialect ssaValues p' e' g = Inr (ok, g') \<longrightarrow>
      toExpression X loc g' p = Inr b) \<and>
   (m_matchGroup_EWasm q \<noteq> 0 \<and> g (m_matchGroup_EWasm q) = Some (Some b) \<longrightarrow>
      toExpressionEWasm X loc g q = Inr (ASTCopier_translate b) \<and> ASTCopier_translate b = b) \<and>
   (m_kind_EWasm q = Any \<and> m_matchGroup_EWasm q \<noteq> 0 \<and> g (m_matchGroup_EWasm q) = None \<and>
    matchesEWasm X dialect ssaValues q e g = Inr (True, g') \<longrightarrow>
      toExpressionEWasm X loc g' q = Inr e) \<and>
   (m_kind_EWasm q = Any \<and> m_matchGroup_EWasm q \<noteq> 0 \<and> g (m_matchGroup_EWasm q) = Some (Some b) \<and>
    matchesEWasm X dialect ssaValues q e g = Inr (True, g') \<longrightarrow>
      toExpressionEWasm X loc g' q = Inr b \<and> SyntacticallyEqual X b e) \<and>
   (m_kind_EWasm q = Constant \<and> m_matchGroup_EWasm q \<noteq> 0 \<and> g (m_matchGroup_EWasm q) = None \<and>
    matchesEWasm X dialect ssaValues q e g = Inr (True, g') \<longrightarrow>
      toExpressionEWasm X loc g' q = Inr (resolveVariable Constant ssaValues e)) \<and>
   (m_kind_EWasm q = Constant \<and> m_matchGroup_EWasm q \<noteq> 0 \<and> g (m_matchGroup_EWasm q) = None \<and>
    ssaValues x = Some (Some v) \<and>
    matchesEWasm X dialect ssaValues q (IdentifierExpr (Identifier l x)) g = Inr (True, g') \<longrightarrow>
      toExpressionEWasm X loc g' q = Inr v \<and> v \<noteq> IdentifierExpr (Identifier l x)) \<and>
   (m_matchGroup_EWasm q \<noteq> 0 \<and> g (m_matchGroup_EWasm q) = Some (Some b) \<and>
    matchesEWasm X dialect ssaValues q' e' g = Inr (ok, g') \<longrightarrow>
      toExpressionEWasm X loc g' q = Inr b)"
proof -
  have wide: "(m_matchGroup p \<noteq> 0 \<and> g (m_matchGroup p) = Some (Some b) \<longrightarrow>
      toExpression X loc g p = Inr (ASTCopier_translate b) \<and> ASTCopier_translate b = b) \<and>
   (m_kind p = Any \<and> m_matchGroup p \<noteq> 0 \<and> g (m_matchGroup p) = None \<and>
    matches X dialect ssaValues p e g = Inr (True, g') \<longrightarrow>
      toExpression X loc g' p = Inr e) \<and>
   (m_kind p = Any \<and> m_matchGroup p \<noteq> 0 \<and> g (m_matchGroup p) = Some (Some b) \<and>
    matches X dialect ssaValues p e g = Inr (True, g') \<longrightarrow>
      toExpression X loc g' p = Inr b \<and> SyntacticallyEqual X b e) \<and>
   (m_kind p = Constant \<and> m_matchGroup p \<noteq> 0 \<and> g (m_matchGroup p) = None \<and>
    matches X dialect ssaValues p e g = Inr (True, g') \<longrightarrow>
      toExpression X loc g' p = Inr (resolveVariable Constant ssaValues e)) \<and>
   (m_kind p = Constant \<and> m_matchGroup p \<noteq> 0 \<and> g (m_matchGroup p) = None \<and>
    ssaValues x = Some (Some v) \<and>
    matches X dialect ssaValues p (IdentifierExpr (Identifier l x)) g = Inr (True, g') \<longrightarrow>
      toExpression X loc g' p = Inr v \<and> v \<noteq> IdentifierExpr (Identifier l x)) \<and>
   (m_matchGroup p \<noteq> 0 \<and> g (m_matchGroup p) = Some (Some b) \<and>
    matches X dialect ssaValues p' e' g = Inr (ok, g') \<longrightarrow>
      toExpression X loc g' p = Inr b)"
  proof (intro conjI impI)
    assume "m_matchGroup p \<noteq> 0 \<and> g (m_matchGroup p) = Some (Some b)"
    then show "toExpression X loc g p = Inr (ASTCopier_translate b)"
      by (simp add: toExpression_of_bound_group)
  next
    show "ASTCopier_translate b = b"
      by (rule ASTCopier_translate_same)
  next
    assume a: "m_kind p = Any \<and> m_matchGroup p \<noteq> 0 \<and> g (m_matchGroup p) = None \<and>
      matches X dialect ssaValues p e g = Inr (True, g')"
    then have "g' = g(m_matchGroup p \<mapsto> Some e)"
      using matches_Any_binds by blast
    with a show "toExpression X loc g' p = Inr e"
      by (simp add: toExpression_of_bound_group ASTCopier_translate_same)
  next
    assume a: "m_kind p = Any \<and> m_matchGroup p \<noteq> 0 \<and> g (m_matchGroup p) = Some (Some b) \<and>
      matches X dialect ssaValues p e g = Inr (True, g')"
    then have "g' = g \<and> SyntacticallyEqual X b e"
      using matches_Any_rebound by blast
    with a show "toExpression X loc g' p = Inr b" and "SyntacticallyEqual X b e"
      by (simp_all add: toExpression_of_bound_group ASTCopier_translate_same)
  next
    assume a: "m_kind p = Constant \<and> m_matchGroup p \<noteq> 0 \<and> g (m_matchGroup p) = None \<and>
      matches X dialect ssaValues p e g = Inr (True, g')"
    then have "g' = g(m_matchGroup p \<mapsto> Some (resolveVariable Constant ssaValues e))"
      using matches_Constant_binds_resolved by blast
    with a show "toExpression X loc g' p = Inr (resolveVariable Constant ssaValues e)"
      by (simp add: toExpression_of_bound_group ASTCopier_translate_same)
  next
    assume a: "m_kind p = Constant \<and> m_matchGroup p \<noteq> 0 \<and> g (m_matchGroup p) = None \<and>
      ssaValues x = Some (Some v) \<and>
      matches X dialect ssaValues p (IdentifierExpr (Identifier l x)) g = Inr (True, g')"
    then have "g' = g(m_matchGroup p \<mapsto> Some (resolveVariable Constant ssaValues (IdentifierExpr (Identifier l x))))"
      using matches_Constant_binds_resolved by blast
    with a have "g' = g(m_matchGroup p \<mapsto> Some v)"
      by (simp add: resolveVariable_known)
    with a show "toExpression X loc g' p = Inr v"
      by (simp add: toExpression_of_bound_group ASTCopier_translate_same)
    from a have "\<exists>loc' s ty. v = Literal loc' Number s ty"
      using matches_Constant_bound_is_not_the_variable by blast
    then show "v \<noteq> IdentifierExpr (Identifier l x)"
      by auto
  next
    assume a: "m_matchGroup p \<noteq> 0 \<and> g (m_matchGroup p) = Some (Some b) \<and>
      matches X dialect ssaValues p' e' g = Inr (ok, g')"
    then have "g' (m_matchGroup p) = Some (Some b)"
      using matches_preserves(1) by blast
    with a show "toExpression X loc g' p = Inr b"
      by (simp add: toExpression_of_bound_group ASTCopier_translate_same)
  qed
  have narrow: "(m_matchGroup_EWasm q \<noteq> 0 \<and> g (m_matchGroup_EWasm q) = Some (Some b) \<longrightarrow>
      toExpressionEWasm X loc g q = Inr (ASTCopier_translate b) \<and> ASTCopier_translate b = b) \<and>
   (m_kind_EWasm q = Any \<and> m_matchGroup_EWasm q \<noteq> 0 \<and> g (m_matchGroup_EWasm q) = None \<and>
    matchesEWasm X dialect ssaValues q e g = Inr (True, g') \<longrightarrow>
      toExpressionEWasm X loc g' q = Inr e) \<and>
   (m_kind_EWasm q = Any \<and> m_matchGroup_EWasm q \<noteq> 0 \<and> g (m_matchGroup_EWasm q) = Some (Some b) \<and>
    matchesEWasm X dialect ssaValues q e g = Inr (True, g') \<longrightarrow>
      toExpressionEWasm X loc g' q = Inr b \<and> SyntacticallyEqual X b e) \<and>
   (m_kind_EWasm q = Constant \<and> m_matchGroup_EWasm q \<noteq> 0 \<and> g (m_matchGroup_EWasm q) = None \<and>
    matchesEWasm X dialect ssaValues q e g = Inr (True, g') \<longrightarrow>
      toExpressionEWasm X loc g' q = Inr (resolveVariable Constant ssaValues e)) \<and>
   (m_kind_EWasm q = Constant \<and> m_matchGroup_EWasm q \<noteq> 0 \<and> g (m_matchGroup_EWasm q) = None \<and>
    ssaValues x = Some (Some v) \<and>
    matchesEWasm X dialect ssaValues q (IdentifierExpr (Identifier l x)) g = Inr (True, g') \<longrightarrow>
      toExpressionEWasm X loc g' q = Inr v \<and> v \<noteq> IdentifierExpr (Identifier l x)) \<and>
   (m_matchGroup_EWasm q \<noteq> 0 \<and> g (m_matchGroup_EWasm q) = Some (Some b) \<and>
    matchesEWasm X dialect ssaValues q' e' g = Inr (ok, g') \<longrightarrow>
      toExpressionEWasm X loc g' q = Inr b)"
  proof (intro conjI impI)
    assume "m_matchGroup_EWasm q \<noteq> 0 \<and> g (m_matchGroup_EWasm q) = Some (Some b)"
    then show "toExpressionEWasm X loc g q = Inr (ASTCopier_translate b)"
      by (simp add: toExpressionEWasm_of_bound_group)
  next
    show "ASTCopier_translate b = b"
      by (rule ASTCopier_translate_same)
  next
    assume a: "m_kind_EWasm q = Any \<and> m_matchGroup_EWasm q \<noteq> 0 \<and> g (m_matchGroup_EWasm q) = None \<and>
      matchesEWasm X dialect ssaValues q e g = Inr (True, g')"
    then have "g' = g(m_matchGroup_EWasm q \<mapsto> Some e)"
      using matchesEWasm_Any_binds by blast
    with a show "toExpressionEWasm X loc g' q = Inr e"
      by (simp add: toExpressionEWasm_of_bound_group ASTCopier_translate_same)
  next
    assume a: "m_kind_EWasm q = Any \<and> m_matchGroup_EWasm q \<noteq> 0 \<and> g (m_matchGroup_EWasm q) = Some (Some b) \<and>
      matchesEWasm X dialect ssaValues q e g = Inr (True, g')"
    then have "g' = g \<and> SyntacticallyEqual X b e"
      using matchesEWasm_Any_rebound by blast
    with a show "toExpressionEWasm X loc g' q = Inr b" and "SyntacticallyEqual X b e"
      by (simp_all add: toExpressionEWasm_of_bound_group ASTCopier_translate_same)
  next
    assume a: "m_kind_EWasm q = Constant \<and> m_matchGroup_EWasm q \<noteq> 0 \<and> g (m_matchGroup_EWasm q) = None \<and>
      matchesEWasm X dialect ssaValues q e g = Inr (True, g')"
    then have "g' = g(m_matchGroup_EWasm q \<mapsto> Some (resolveVariable Constant ssaValues e))"
      using matchesEWasm_Constant_binds_resolved by blast
    with a show "toExpressionEWasm X loc g' q = Inr (resolveVariable Constant ssaValues e)"
      by (simp add: toExpressionEWasm_of_bound_group ASTCopier_translate_same)
  next
    assume a: "m_kind_EWasm q = Constant \<and> m_matchGroup_EWasm q \<noteq> 0 \<and> g (m_matchGroup_EWasm q) = None \<and>
      ssaValues x = Some (Some v) \<and>
      matchesEWasm X dialect ssaValues q (IdentifierExpr (Identifier l x)) g = Inr (True, g')"
    then have "g' = g(m_matchGroup_EWasm q \<mapsto> Some (resolveVariable Constant ssaValues (IdentifierExpr (Identifier l x))))"
      using matchesEWasm_Constant_binds_resolved by blast
    with a have "g' = g(m_matchGroup_EWasm q \<mapsto> Some v)"
      by (simp add: resolveVariable_known)
    with a show "toExpressionEWasm X loc g' q = Inr v"
      by (simp add: toExpressionEWasm_of_bound_group ASTCopier_translate_same)
    from a have "\<exists>loc' s ty. v = Literal loc' Number s ty"
      using matchesEWasm_Constant_bound_is_not_the_variable by blast
    then show "v \<noteq> IdentifierExpr (Identifier l x)"
      by auto
  next
    assume a: "m_matchGroup_EWasm q \<noteq> 0 \<and> g (m_matchGroup_EWasm q) = Some (Some b) \<and>
      matchesEWasm X dialect ssaValues q' e' g = Inr (ok, g')"
    then have "g' (m_matchGroup_EWasm q) = Some (Some b)"
      using matchesEWasm_preserves(1) by blast
    with a show "toExpressionEWasm X loc g' q = Inr b"
      by (simp add: toExpressionEWasm_of_bound_group ASTCopier_translate_same)
  qed
  from wide narrow show ?thesis
    by (elim conjE) (intro conjI; assumption)
qed

theorem toExpression_reproduces_bound_expression_witness:
  "matches sampleExternals sampleDialect Map.empty
     (Pattern_of_instruction 1 [setMatchGroup 5 (Pattern_of_kind Any), Pattern_of_value 0])
     (FunctionCall noLocation (Identifier noLocation ''add'')
        [IdentifierExpr (Identifier noLocation ''y''), Literal noLocation Number ''0'' []])
     Map.empty
   = Inr (True, Map.empty(5 \<mapsto> Some (IdentifierExpr (Identifier noLocation ''y'')))) \<and>
   toExpression sampleExternals noLocation
     (Map.empty(5 \<mapsto> Some (IdentifierExpr (Identifier noLocation ''y''))))
     (setMatchGroup 5 (Pattern_of_kind Any))
   = Inr (IdentifierExpr (Identifier noLocation ''y'')) \<and>
   matches sampleExternals sampleDialect (Map.empty(''x'' \<mapsto> Some (Literal noLocation Number ''5'' [])))
     (setMatchGroup 1 (Pattern_of_kind Constant)) (IdentifierExpr (Identifier noLocation ''x''))
     Map.empty
   = Inr (True, Map.empty(1 \<mapsto> Some (Literal noLocation Number ''5'' []))) \<and>
   toExpression sampleExternals noLocation
     (Map.empty(1 \<mapsto> Some (Literal noLocation Number ''5'' [])))
     (setMatchGroup 1 (Pattern_of_kind Constant))
   = Inr (Literal noLocation Number ''5'' []) \<and>
   matchesEWasm sampleExternals sampleWasmDialect Map.empty
     (PatternEWasm_of_builtin ''i64.ne'' [setMatchGroupEWasm 5 (PatternEWasm_of_kind Any), PatternEWasm_of_value 0])
     (FunctionCall noLocation (Identifier noLocation ''i64.ne'')
        [IdentifierExpr (Identifier noLocation ''y''), Literal noLocation Number ''0'' []])
     Map.empty
   = Inr (True, Map.empty(5 \<mapsto> Some (IdentifierExpr (Identifier noLocation ''y'')))) \<and>
   toExpressionEWasm sampleExternals noLocation
     (Map.empty(5 \<mapsto> Some (IdentifierExpr (Identifier noLocation ''y''))))
     (setMatchGroupEWasm 5 (PatternEWasm_of_kind Any))
   = Inr (IdentifierExpr (Identifier noLocation ''y'')) \<and>
   matchesEWasm sampleExternals sampleWasmDialect
     (Map.empty(''x'' \<mapsto> Some (Literal noLocation Number ''5'' [])))
     (setMatchGroupEWasm 1 (PatternEWasm_of_kind Constant)) (IdentifierExpr (Identifier noLocation ''x''))
     Map.empty
   = Inr (True, Map.empty(1 \<mapsto> Some (Literal noLocation Number ''5'' []))) \<and>
   toExpressionEWasm sampleExternals noLocation
     (Map.empty(1 \<mapsto> Some (Literal noLocation Number ''5'' [])))
     (setMatchGroupEWasm 1 (PatternEWasm_of_kind Constant))
   = Inr (Literal noLocation Number ''5'' [])"
proof -
  note T = toExpression_reproduces_bound_expression
  let ?y = "IdentifierExpr (Identifier noLocation ''y'')"
  let ?x = "IdentifierExpr (Identifier noLocation ''x'')"
  let ?five = "Literal noLocation Number ''5'' []"
  let ?zero = "Literal noLocation Number ''0'' []"
  let ?ssa = "Map.empty(''x'' \<mapsto> Some ?five) :: SSAValues"
  let ?X = "setMatchGroup 5 (Pattern_of_kind Any)"
  let ?A = "setMatchGroup 1 (Pattern_of_kind Constant)"
  let ?Q = "setMatchGroupEWasm 5 (PatternEWasm_of_kind Any)"
  let ?B = "setMatchGroupEWasm 1 (PatternEWasm_of_kind Constant)"
  note defs = Pattern_of_instruction_def PatternEWasm_of_builtin_def setMatchGroup_def
    setMatchGroupEWasm_def Pattern_of_kind_def PatternEWasm_of_kind_def Pattern_of_value_def
    PatternEWasm_of_value_def sampleDialect_def sampleWasmDialect_def sampleExternals_def
    resolveVariable_def matchConstant_def matchConstantEWasm_def checkMatchGroup_def andThen_simps
  have sel: "m_kind ?X = Any" "m_matchGroup ?X = 5" "m_kind ?A = Constant" "m_matchGroup ?A = 1"
    "m_kind_EWasm ?Q = Any" "m_matchGroup_EWasm ?Q = 5"
    "m_kind_EWasm ?B = Constant" "m_matchGroup_EWasm ?B = 1"
    by (simp_all add: setMatchGroup_def setMatchGroupEWasm_def Pattern_of_kind_def PatternEWasm_of_kind_def)
  have ssa: "?ssa ''x'' = Some (Some ?five)"
    by simp
  have m: "matches sampleExternals sampleDialect Map.empty (Pattern_of_instruction 1 [?X, Pattern_of_value 0])
      (FunctionCall noLocation (Identifier noLocation ''add'') [?y, ?zero]) Map.empty
      = Inr (True, Map.empty(5 \<mapsto> Some ?y))"
    by (simp add: defs)
  have mx: "matches sampleExternals sampleDialect Map.empty ?X ?y Map.empty
      = Inr (True, Map.empty(5 \<mapsto> Some ?y))"
    by (simp add: defs)
  have ma: "matches sampleExternals sampleDialect ?ssa ?A ?x Map.empty
      = Inr (True, Map.empty(1 \<mapsto> Some ?five))"
    by (simp add: defs)
  have n: "matchesEWasm sampleExternals sampleWasmDialect Map.empty
      (PatternEWasm_of_builtin ''i64.ne'' [?Q, PatternEWasm_of_value 0])
      (FunctionCall noLocation (Identifier noLocation ''i64.ne'') [?y, ?zero]) Map.empty
      = Inr (True, Map.empty(5 \<mapsto> Some ?y))"
    by (simp add: defs)
  have nx: "matchesEWasm sampleExternals sampleWasmDialect Map.empty ?Q ?y Map.empty
      = Inr (True, Map.empty(5 \<mapsto> Some ?y))"
    by (simp add: defs)
  have na: "matchesEWasm sampleExternals sampleWasmDialect ?ssa ?B ?x Map.empty
      = Inr (True, Map.empty(1 \<mapsto> Some ?five))"
    by (simp add: defs)
  have w1: "toExpression sampleExternals noLocation (Map.empty(5 \<mapsto> Some ?y)) ?X = Inr ?y"
    using T [where p = ?X and g = Map.empty and X = sampleExternals and dialect = sampleDialect
        and ssaValues = Map.empty and e = ?y and g' = "Map.empty(5 \<mapsto> Some ?y)" and loc = noLocation,
        THEN conjunct2, THEN conjunct1] sel mx
    by simp
  have w2: "toExpression sampleExternals noLocation (Map.empty(1 \<mapsto> Some ?five)) ?A = Inr ?five"
    using T [where p = ?A and g = Map.empty and X = sampleExternals and dialect = sampleDialect
        and ssaValues = ?ssa and x = "''x''" and v = ?five and l = noLocation
        and g' = "Map.empty(1 \<mapsto> Some ?five)" and loc = noLocation,
        THEN conjunct2, THEN conjunct2, THEN conjunct2, THEN conjunct2, THEN conjunct1] sel ssa ma
    by simp
  have w3: "toExpressionEWasm sampleExternals noLocation (Map.empty(5 \<mapsto> Some ?y)) ?Q = Inr ?y"
    using T [where q = ?Q and g = Map.empty and X = sampleExternals and dialect = sampleWasmDialect
        and ssaValues = Map.empty and e = ?y and g' = "Map.empty(5 \<mapsto> Some ?y)" and loc = noLocation,
        THEN conjunct2, THEN conjunct2, THEN conjunct2, THEN conjunct2, THEN conjunct2,
        THEN conjunct2, THEN conjunct2, THEN conjunct1] sel nx
    by simp
  have w4: "toExpressionEWasm sampleExternals noLocation (Map.empty(1 \<mapsto> Some ?five)) ?B = Inr ?five"
    using T [where q = ?B and g = Map.empty and X = sampleExternals and dialect = sampleWasmDialect
        and ssaValues = ?ssa and x = "''x''" and v = ?five and l = noLocation
        and g' = "Map.empty(1 \<mapsto> Some ?five)" and loc = noLocation,
        THEN conjunct2, THEN conjunct2, THEN conjunct2, THEN conjunct2, THEN conjunct2,
        THEN conjunct2, THEN conjunct2, THEN conjunct2, THEN conjunct2, THEN conjunct2,
        THEN conjunct1] sel ssa na
    by simp
  from m w1 ma w2 n w3 na w4 show ?thesis
    by (intro conjI)
qed

subsection \<open>Narrow rules without a builtin name\<close>

lemma addRuleEWasm_empty_builtin:
  "PatternEWasm_builtin (pattern rule) = Inr [] \<Longrightarrow> addRuleEWasm rules rule = Inr rules"
  by (simp add: addRuleEWasm_def)

lemma PatternEWasm_builtin_of_builtin:
  "PatternEWasm_builtin (PatternEWasm_of_builtin b arguments) = Inr b"
  by (simp add: PatternEWasm_builtin_def PatternEWasm_of_builtin_def)

lemma addRule_keeps_EWasm:
  "addRule rules rule = Inr rules' \<Longrightarrow> m_rulesEWasm rules' = m_rulesEWasm rules"
  by (auto simp add: addRule_def split: sum.splits)

lemma addRules_keeps_EWasm:
  "addRules rules rs = Inr rules' \<Longrightarrow> m_rulesEWasm rules' = m_rulesEWasm rules"
proof (induction rs arbitrary: rules)
  case Nil
  then show ?case by simp
next
  case (Cons r rs)
  then show ?case
    by (auto split: sum.splits dest: addRule_keeps_EWasm)
qed

lemma addRuleEWasm_buckets:
  assumes "addRuleEWasm rules rule = Inr rules'"
    and "m_rulesEWasm rules [] = [] \<and> (\<forall>n. \<forall>r \<in> set (m_rulesEWasm rules n). m_instruction_EWasm (pattern r) = n)"
  shows "m_rulesEWasm rules' [] = [] \<and> (\<forall>n. \<forall>r \<in> set (m_rulesEWasm rules' n). m_instruction_EWasm (pattern r) = n)"
  using assms
  by (auto simp add: addRuleEWasm_def PatternEWasm_builtin_def split: sum.splits if_splits)

lemma addRulesEWasm_buckets:
  assumes "addRulesEWasm rules rs = Inr rules'"
    and "m_rulesEWasm rules [] = [] \<and> (\<forall>n. \<forall>r \<in> set (m_rulesEWasm rules n). m_instruction_EWasm (pattern r) = n)"
  shows "m_rulesEWasm rules' [] = [] \<and> (\<forall>n. \<forall>r \<in> set (m_rulesEWasm rules' n). m_instruction_EWasm (pattern r) = n)"
  using assms
proof (induction rs arbitrary: rules)
  case Nil
  then show ?case by simp
next
  case (Cons a rs)
  from Cons.prems(1) obtain rules1 where a: "addRuleEWasm rules a = Inr rules1"
    and rest: "addRulesEWasm rules1 rs = Inr rules'"
    by (auto split: sum.splits)
  from addRuleEWasm_buckets [OF a Cons.prems(2)] Cons.IH [OF rest] show ?case
    by blast
qed

lemma constructed_buckets:
  assumes "addRules emptyRules evmRules = Inr rules1" and "addRulesEWasm rules1 wasmRules = Inr rules2"
  shows "m_rulesEWasm rules2 [] = [] \<and> (\<forall>n. \<forall>r \<in> set (m_rulesEWasm rules2 n). m_instruction_EWasm (pattern r) = n)"
proof -
  from addRules_keeps_EWasm [OF assms(1)] have "m_rulesEWasm rules1 = (\<lambda>_. [])"
    by (simp add: emptyRules_def)
  then have "m_rulesEWasm rules1 [] = [] \<and> (\<forall>n. \<forall>r \<in> set (m_rulesEWasm rules1 n). m_instruction_EWasm (pattern r) = n)"
    by simp
  from addRulesEWasm_buckets [OF assms(2) this] show ?thesis .
qed

lemma findFirstMatchEWasm_from_bucket:
  assumes "findFirstMatchEWasm X rules e dialect ssaValues = Inr (Some r, rules')"
  shows "\<exists>n. r \<in> set (m_rulesEWasm rules n)"
proof -
  from findFirstMatchEWasm_found [OF assms] obtain functionName pre post where
    "m_rulesEWasm rules (name functionName) = pre @ r # post"
    by blast
  then have "r \<in> set (m_rulesEWasm rules (name functionName))" by simp
  then show ?thesis by blast
qed

text \<open>
  Claim C10. \<^verbatim>\<open>addRule\<close> for a \<^verbatim>\<open>PatternEWasm\<close> rule whose pattern's builtin name is the empty
  string returns the engine unchanged and raises nothing. That is the case for every pattern
  built on one of the names \<^verbatim>\<open>EWasmBuiltins\<close> leaves empty (\<^verbatim>\<open>SDIV\<close>, \<^verbatim>\<open>SMOD\<close>, \<^verbatim>\<open>EXP\<close>,
  \<^verbatim>\<open>NOT\<close>, \<^verbatim>\<open>SLT\<close>, \<^verbatim>\<open>SGT\<close>, \<^verbatim>\<open>BYTE\<close>, \<^verbatim>\<open>ADDMOD\<close>, \<^verbatim>\<open>MULMOD\<close>, \<^verbatim>\<open>SIGNEXTEND\<close>,
  \<^verbatim>\<open>ADDRESS\<close>, \<^verbatim>\<open>CALLER\<close>, \<^verbatim>\<open>ORIGIN\<close>, \<^verbatim>\<open>COINBASE\<close>). So in an engine filled as the
  constructor fills it, from the empty tables by \<^verbatim>\<open>addRules\<close> and then by \<^verbatim>\<open>addRule\<close> for each
  narrow rule, the bucket of the empty name is empty, no bucket holds a rule with the empty
  name, and \<^verbatim>\<open>findFirstMatchEWasm\<close> never returns one.
\<close>

theorem empty_builtin_rules_are_dropped:
  "(PatternEWasm_builtin (pattern rule) = Inr [] \<longrightarrow> addRuleEWasm rules rule = Inr rules) \<and>
   (b \<in> {EWasmBuiltins_SDIV, EWasmBuiltins_SMOD, EWasmBuiltins_EXP, EWasmBuiltins_NOT,
          EWasmBuiltins_SLT, EWasmBuiltins_SGT, EWasmBuiltins_BYTE, EWasmBuiltins_ADDMOD,
          EWasmBuiltins_MULMOD, EWasmBuiltins_SIGNEXTEND, EWasmBuiltins_ADDRESS,
          EWasmBuiltins_CALLER, EWasmBuiltins_ORIGIN, EWasmBuiltins_COINBASE} \<longrightarrow>
      addRuleEWasm rules (rule\<lparr>pattern := PatternEWasm_of_builtin b arguments\<rparr>) = Inr rules) \<and>
   (addRules emptyRules evmRules = Inr rules1 \<and> addRulesEWasm rules1 wasmRules = Inr rules2 \<longrightarrow>
      m_rulesEWasm rules2 [] = [] \<and>
      (\<forall>n. \<forall>r \<in> set (m_rulesEWasm rules2 n). m_instruction_EWasm (pattern r) \<noteq> []) \<and>
      (\<forall>r rules3. findFirstMatchEWasm X rules2 e dialect ssaValues = Inr (Some r, rules3) \<longrightarrow>
         m_instruction_EWasm (pattern r) \<noteq> []))"
proof (intro conjI impI)
  assume "PatternEWasm_builtin (pattern rule) = Inr []"
  then show "addRuleEWasm rules rule = Inr rules"
    by (rule addRuleEWasm_empty_builtin)
next
  assume "b \<in> {EWasmBuiltins_SDIV, EWasmBuiltins_SMOD, EWasmBuiltins_EXP, EWasmBuiltins_NOT,
          EWasmBuiltins_SLT, EWasmBuiltins_SGT, EWasmBuiltins_BYTE, EWasmBuiltins_ADDMOD,
          EWasmBuiltins_MULMOD, EWasmBuiltins_SIGNEXTEND, EWasmBuiltins_ADDRESS,
          EWasmBuiltins_CALLER, EWasmBuiltins_ORIGIN, EWasmBuiltins_COINBASE}"
  then have "b = []"
    by (auto simp add: EWasmBuiltins_SDIV_def EWasmBuiltins_SMOD_def EWasmBuiltins_EXP_def
        EWasmBuiltins_NOT_def EWasmBuiltins_SLT_def EWasmBuiltins_SGT_def EWasmBuiltins_BYTE_def
        EWasmBuiltins_ADDMOD_def EWasmBuiltins_MULMOD_def EWasmBuiltins_SIGNEXTEND_def
        EWasmBuiltins_ADDRESS_def EWasmBuiltins_CALLER_def EWasmBuiltins_ORIGIN_def
        EWasmBuiltins_COINBASE_def)
  then show "addRuleEWasm rules (rule\<lparr>pattern := PatternEWasm_of_builtin b arguments\<rparr>) = Inr rules"
    by (simp add: addRuleEWasm_empty_builtin PatternEWasm_builtin_of_builtin)
next
  assume a: "addRules emptyRules evmRules = Inr rules1 \<and> addRulesEWasm rules1 wasmRules = Inr rules2"
  then have inv: "m_rulesEWasm rules2 [] = [] \<and> (\<forall>n. \<forall>r \<in> set (m_rulesEWasm rules2 n). m_instruction_EWasm (pattern r) = n)"
    using constructed_buckets by blast
  from inv show "m_rulesEWasm rules2 [] = []"
    by blast
  from inv show "\<forall>n. \<forall>r \<in> set (m_rulesEWasm rules2 n). m_instruction_EWasm (pattern r) \<noteq> []"
    by (metis empty_iff list.set(1))
  from inv have "\<forall>n. \<forall>r \<in> set (m_rulesEWasm rules2 n). m_instruction_EWasm (pattern r) \<noteq> []"
    by (metis empty_iff list.set(1))
  then show "\<forall>r rules3. findFirstMatchEWasm X rules2 e dialect ssaValues = Inr (Some r, rules3) \<longrightarrow>
         m_instruction_EWasm (pattern r) \<noteq> []"
    using findFirstMatchEWasm_from_bucket by blast
qed

theorem empty_builtin_rules_are_dropped_witness:
  "addRuleEWasm sampleRules
     (sampleRuleEWasm (PatternEWasm_of_builtin EWasmBuiltins_SDIV
        [setMatchGroupEWasm 5 (PatternEWasm_of_kind Any), setMatchGroupEWasm 6 (PatternEWasm_of_kind Any)]))
   = Inr sampleRules \<and>
   addRulesEWasm emptyRules
     [sampleRuleEWasm (PatternEWasm_of_builtin EWasmBuiltins_SDIV
        [setMatchGroupEWasm 5 (PatternEWasm_of_kind Any), setMatchGroupEWasm 6 (PatternEWasm_of_kind Any)]),
      sampleRuleEWasm (PatternEWasm_of_builtin ''i64.ne''
        [setMatchGroupEWasm 5 (PatternEWasm_of_kind Any), PatternEWasm_of_value 0])]
   = Inr (emptyRules\<lparr>m_rulesEWasm := (m_rulesEWasm emptyRules)
       (''i64.ne'' := [sampleRuleEWasm (PatternEWasm_of_builtin ''i64.ne''
          [setMatchGroupEWasm 5 (PatternEWasm_of_kind Any), PatternEWasm_of_value 0])])\<rparr>) \<and>
   m_rulesEWasm (emptyRules\<lparr>m_rulesEWasm := (m_rulesEWasm emptyRules)
       (''i64.ne'' := [sampleRuleEWasm (PatternEWasm_of_builtin ''i64.ne''
          [setMatchGroupEWasm 5 (PatternEWasm_of_kind Any), PatternEWasm_of_value 0])])\<rparr>) [] = []"
proof -
  note T = empty_builtin_rules_are_dropped
  let ?sdiv = "sampleRuleEWasm (PatternEWasm_of_builtin EWasmBuiltins_SDIV
        [setMatchGroupEWasm 5 (PatternEWasm_of_kind Any), setMatchGroupEWasm 6 (PatternEWasm_of_kind Any)])"
  let ?w3 = "sampleRuleEWasm (PatternEWasm_of_builtin ''i64.ne''
        [setMatchGroupEWasm 5 (PatternEWasm_of_kind Any), PatternEWasm_of_value 0])"
  let ?R2 = "emptyRules\<lparr>m_rulesEWasm := (m_rulesEWasm emptyRules)(''i64.ne'' := [?w3])\<rparr>"
  have shape: "?sdiv = (?sdiv\<lparr>pattern := PatternEWasm_of_builtin EWasmBuiltins_SDIV
        [setMatchGroupEWasm 5 (PatternEWasm_of_kind Any), setMatchGroupEWasm 6 (PatternEWasm_of_kind Any)]\<rparr>)"
    by (simp add: sampleRuleEWasm_def)
  have dropped: "addRuleEWasm rules ?sdiv = Inr rules" for rules
    using T [where b = EWasmBuiltins_SDIV and rules = rules and rule = ?sdiv
        and arguments = "[setMatchGroupEWasm 5 (PatternEWasm_of_kind Any),
          setMatchGroupEWasm 6 (PatternEWasm_of_kind Any)]", THEN conjunct2, THEN conjunct1] shape
    by simp
  have evm: "addRules emptyRules [] = Inr emptyRules"
    by simp
  have kept: "addRuleEWasm emptyRules ?w3 = Inr ?R2"
    by (simp add: addRuleEWasm_def PatternEWasm_builtin_def PatternEWasm_of_builtin_def
        sampleRuleEWasm_def emptyRules_def)
  have wasm: "addRulesEWasm emptyRules [?sdiv, ?w3] = Inr ?R2"
    using dropped [of emptyRules] kept by simp
  have "m_rulesEWasm ?R2 [] = []"
    using T [where evmRules = "[]" and ?rules1.0 = emptyRules and wasmRules = "[?sdiv, ?w3]"
        and ?rules2.0 = ?R2, THEN conjunct2, THEN conjunct2] evm wasm
    by blast
  with dropped [of sampleRules] wasm show ?thesis by blast
qed

end
